theory Spec2Isabelle
  imports Main "HOL-Library.Multiset" "HOL-Library.Char_ord" "HOL-Library.List_Lexorder"
begin

section \<open>The debugger interface used by heapcmd.py\<close>

text \<open>
  The script runs inside GDB and reads the inspected process through GDB's Python
  objects (\<^verbatim>\<open>gdb.Value\<close>, \<^verbatim>\<open>gdb.Type\<close>, \<^verbatim>\<open>gdb.Field\<close>) and through
  core_analyzer's \<^verbatim>\<open>gdb.heap_block\<close>. None of these is defined in the script, so the
  model takes them as a parameter: a record of functions over an arbitrary type \<open>'v\<close> of
  value objects and an arbitrary type \<open>'t\<close> of type objects. Addresses and sizes are
  Python integers.
\<close>

type_synonym addr = int

datatype type_code =
    TYPE_CODE_PTR | TYPE_CODE_ARRAY | TYPE_CODE_STRUCT | TYPE_CODE_UNION
  | TYPE_CODE_REF | TYPE_CODE_TYPEDEF | TYPE_CODE_ENUM | TYPE_CODE_INT
  | TYPE_CODE_FLT | TYPE_CODE_FUNC | TYPE_CODE_VOID

text \<open>Python exceptions, as values.\<close>

datatype exn = GdbError | MemoryError | RuntimeError | TypeError | ZeroDivisionError
  | IndexError | AttributeError | UnboundLocalError

text \<open>What \<^verbatim>\<open>gdb.heap_block(addr)\<close> returns when it finds a block.\<close>

record heap_blk =
  blk_address :: addr
  blk_size :: int
  blk_inuse :: bool

text \<open>
  A \<^verbatim>\<open>gdb.Field\<close>: \<open>f_type = None\<close> stands for a field object without a
  \<^verbatim>\<open>type\<close> attribute, \<open>f_name = None\<close> for \<^verbatim>\<open>m.name is None\<close>.
\<close>

record 't field =
  f_name :: "string option"
  f_type :: "'t option"
  f_is_base_class :: bool

text \<open>
  The operations on values and types. An operation that can raise in GDB returns
  \<open>Inl\<close> of the exception. For a value: \<^verbatim>\<open>value.is_optimized_out\<close>,
  \<^verbatim>\<open>value.address\<close> (as an integer, or \<^verbatim>\<open>None\<close>), \<^verbatim>\<open>value.type\<close>,
  \<^verbatim>\<open>value.dynamic_type\<close>, \<^verbatim>\<open>value.cast(type)\<close>, \<^verbatim>\<open>long(value)\<close>,
  \<^verbatim>\<open>value.referenced_value()\<close>, \<^verbatim>\<open>value[i]\<close>, \<^verbatim>\<open>hasattr(value, name)\<close> and
  \<^verbatim>\<open>value[name]\<close>. For a type: \<^verbatim>\<open>gdb.types.get_basic_type(type)\<close>,
  \<^verbatim>\<open>type.code\<close>, \<^verbatim>\<open>type.target()\<close>, \<^verbatim>\<open>type.sizeof\<close> and \<^verbatim>\<open>type.fields()\<close>.
  \<^verbatim>\<open>gdb.heap_block(addr)\<close> is \<open>None\<close> when the address is in no block.
\<close>

record ('v, 't) gdb =
  v_is_optimized_out :: "'v \<Rightarrow> bool"
  v_address :: "'v \<Rightarrow> addr option"
  v_type :: "'v \<Rightarrow> 't"
  v_dynamic_type :: "'v \<Rightarrow> exn + 't"
  v_cast :: "'v \<Rightarrow> 't \<Rightarrow> exn + 'v"
  v_long :: "'v \<Rightarrow> exn + addr"
  v_referenced_value :: "'v \<Rightarrow> exn + 'v"
  v_index :: "'v \<Rightarrow> nat \<Rightarrow> exn + 'v"
  v_hasattr :: "'v \<Rightarrow> string \<Rightarrow> bool"
  v_member :: "'v \<Rightarrow> string \<Rightarrow> exn + 'v"
  get_basic_type :: "'t \<Rightarrow> 't"
  t_code :: "'t \<Rightarrow> type_code"
  t_target :: "'t \<Rightarrow> 't"
  t_sizeof :: "'t \<Rightarrow> int"
  t_fields :: "'t \<Rightarrow> 't field list"
  heap_block :: "addr \<Rightarrow> heap_blk option"

section \<open>heap_usage_value\<close>

text \<open>
  The local variables of \<^verbatim>\<open>heap_usage_value\<close>. The deque \<^verbatim>\<open>values\<close> is only
  used as a stack (\<^verbatim>\<open>append\<close> and \<^verbatim>\<open>pop\<close> at the right end): the head of the list is
  its right end. \<open>blk_addrs\<close> is the caller's set, which the function mutates.
\<close>

record 'v hstate =
  values_stack :: "(string \<times> 'v option) list"
  unique_value_addrs :: "addr set"
  blk_addrs :: "addr set"
  sz :: int
  cnt :: int

text \<open>Python's \<^verbatim>\<open>str(i)\<close> for a non-negative integer.\<close>

fun str_nat :: "nat \<Rightarrow> string" where
  "str_nat n = (if n < 10 then [char_of (48 + n)]
                else str_nat (n div 10) @ [char_of (48 + n mod 10)])"

declare str_nat.simps [simp del]

text \<open>Python's \<^verbatim>\<open>str(m.name)\<close>.\<close>

definition str_name :: "string option \<Rightarrow> string" where
  "str_name n = (case n of None \<Rightarrow> ''None'' | Some s \<Rightarrow> s)"

text \<open>\<^verbatim>\<open>values.append((name, v))\<close>.\<close>

definition append_value :: "string \<Rightarrow> 'v \<Rightarrow> 'v hstate \<Rightarrow> 'v hstate" where
  "append_value name v st = st\<lparr>values_stack := (name, Some v) # values_stack st\<rparr>"

text \<open>
  \<^verbatim>\<open>if parent_addr and parent_addr == long(child.address): unique_value_addrs.discard(parent_addr)\<close>.
  \<^verbatim>\<open>long(None)\<close> raises TypeError; the test is short-circuited when \<^verbatim>\<open>parent_addr\<close>
  is \<^verbatim>\<open>None\<close> or zero.
\<close>

definition discard_alias ::
  "addr option \<Rightarrow> addr option \<Rightarrow> 'v hstate \<Rightarrow> (exn \<times> 'v hstate) + 'v hstate" where
  "discard_alias parent_addr child_addr st =
     (case parent_addr of
        None \<Rightarrow> Inr st
      | Some p \<Rightarrow>
          if p = 0 then Inr st
          else (case child_addr of
                  None \<Rightarrow> Inl (TypeError, st)
                | Some c \<Rightarrow>
                    if p = c
                    then Inr (st\<lparr>unique_value_addrs := unique_value_addrs st - {p}\<rparr>)
                    else Inr st))"

text \<open>
  \<^verbatim>\<open>blk_addrs.add(blk.address); size += blk.size; count += 1\<close>
  (source lines 190 to 192).
\<close>

definition count_block :: "heap_blk \<Rightarrow> 'v hstate \<Rightarrow> 'v hstate" where
  "count_block blk st =
     st\<lparr>blk_addrs := insert (blk_address blk) (blk_addrs st),
        sz := sz st + blk_size blk,
        cnt := cnt st + 1\<rparr>"

text \<open>
  \<^verbatim>\<open>if type is not value.dynamic_type: type = value.dynamic_type; value = value.cast(type)\<close>
  (source lines 183 to 185): the type and the value the pointer branch goes on with.
  Identity of type objects is equality in \<open>'t\<close>.
\<close>

definition resolve_dynamic :: "('v, 't) gdb \<Rightarrow> 'v \<Rightarrow> 't \<Rightarrow> exn + ('t \<times> 'v)" where
  "resolve_dynamic g v0 type0 =
     (case v_dynamic_type g v0 of
        Inl e \<Rightarrow> Inl e
      | Inr dt \<Rightarrow>
          if type0 \<noteq> dt
          then (case v_cast g v0 dt of Inl e \<Rightarrow> Inl e | Inr v' \<Rightarrow> Inr (dt, v'))
          else Inr (type0, v0))"

text \<open>The pointer branch (source lines 182 to 197).\<close>

definition expand_ptr ::
  "('v, 't) gdb \<Rightarrow> string \<Rightarrow> 'v \<Rightarrow> 't \<Rightarrow> 'v hstate \<Rightarrow> (exn \<times> 'v hstate) + 'v hstate" where
  "expand_ptr g name v0 type0 st =
     (case resolve_dynamic g v0 type0 of
        Inl e \<Rightarrow> Inl (e, st)
      | Inr (type, v) \<Rightarrow>
         (case v_long g v of
            Inl e \<Rightarrow> Inl (e, st)
          | Inr a \<Rightarrow>
             (case heap_block g a of
                None \<Rightarrow> Inr st
              | Some blk \<Rightarrow>
                  if blk_inuse blk \<and> blk_address blk \<notin> blk_addrs st
                  then
                    let st1 = count_block blk st
                    in if t_sizeof g (t_target g type) \<ge> 8
                       then (case v_referenced_value g v of
                               Inl e \<Rightarrow> Inl (e, st1)
                             | Inr r \<Rightarrow> Inr (append_value (''*('' @ name @ '')'') r st1))
                       else Inr st1
                  else Inr st)))"

text \<open>The loop of the array branch (source lines 203 to 207), over the indices left.\<close>

fun array_loop ::
  "('v, 't) gdb \<Rightarrow> string \<Rightarrow> 'v \<Rightarrow> addr option \<Rightarrow> nat list \<Rightarrow> 'v hstate
     \<Rightarrow> (exn \<times> 'v hstate) + 'v hstate" where
  "array_loop g name v parent_addr [] st = Inr st"
| "array_loop g name v parent_addr (i # is) st =
     (case v_index g v i of
        Inl e \<Rightarrow> Inl (e, st)
      | Inr c \<Rightarrow>
         (case discard_alias parent_addr (v_address g c) st of
            Inl e \<Rightarrow> Inl e
          | Inr st1 \<Rightarrow>
              array_loop g name v parent_addr is
                (append_value (name @ ''['' @ str_nat i @ '']'') c st1)))"

text \<open>
  The array branch: \<^verbatim>\<open>array_size = type.sizeof / type.target().sizeof\<close> is Python 2
  integer division, which raises ZeroDivisionError on a zero element size;
  \<^verbatim>\<open>range\<close> of a negative number is empty.
\<close>

definition expand_array ::
  "('v, 't) gdb \<Rightarrow> string \<Rightarrow> 'v \<Rightarrow> 't \<Rightarrow> addr option \<Rightarrow> 'v hstate
     \<Rightarrow> (exn \<times> 'v hstate) + 'v hstate" where
  "expand_array g name v type parent_addr st =
     (if t_sizeof g (t_target g type) = 0 then Inl (ZeroDivisionError, st)
      else
        let array_size = t_sizeof g type div t_sizeof g (t_target g type)
        in array_loop g name v parent_addr [0..<nat array_size] st)"

text \<open>
  The value of one field (source lines 219 to 224): \<open>None\<close> is Python's
  \<^verbatim>\<open>None\<close>.
\<close>

definition field_value ::
  "('v, 't) gdb \<Rightarrow> 'v \<Rightarrow> 't field \<Rightarrow> 't \<Rightarrow> exn + 'v option" where
  "field_value g v m mtype =
     (if f_is_base_class m
      then (case v_cast g v mtype of Inl e \<Rightarrow> Inl e | Inr b \<Rightarrow> Inr (Some b))
      else (case f_name m of
              None \<Rightarrow> Inr None
            | Some n \<Rightarrow>
                if n \<noteq> [] \<and> v_hasattr g v n
                then (case v_member g v n of Inl e \<Rightarrow> Inl e | Inr x \<Rightarrow> Inr (Some x))
                else Inr None))"

text \<open>The test on the field's type (source lines 229 to 236).\<close>

definition field_qualifies :: "('v, 't) gdb \<Rightarrow> 't \<Rightarrow> bool" where
  "field_qualifies g mtype \<longleftrightarrow>
     t_sizeof g mtype \<ge> 8 \<and>
     (t_code g mtype = TYPE_CODE_PTR \<or> t_code g mtype = TYPE_CODE_REF \<or>
      t_code g mtype = TYPE_CODE_ARRAY \<or> t_code g mtype = TYPE_CODE_STRUCT \<or>
      t_code g mtype = TYPE_CODE_UNION \<or> t_code g mtype = TYPE_CODE_TYPEDEF)"

text \<open>
  The loop of the struct branch (source lines 214 to 245), over the fields left. The
  message printed for a field without a type concatenates \<^verbatim>\<open>m.name\<close>, which raises
  TypeError when the name is \<^verbatim>\<open>None\<close>.
\<close>

fun struct_loop ::
  "('v, 't) gdb \<Rightarrow> string \<Rightarrow> 'v \<Rightarrow> addr option \<Rightarrow> 't field list \<Rightarrow> 'v hstate
     \<Rightarrow> (exn \<times> 'v hstate) + 'v hstate" where
  "struct_loop g name v parent_addr [] st = Inr st"
| "struct_loop g name v parent_addr (m # ms) st =
     (case f_type m of
        None \<Rightarrow>
          (case f_name m of
             None \<Rightarrow> Inl (TypeError, st)
           | Some n \<Rightarrow> struct_loop g name v parent_addr ms st)
      | Some mtype \<Rightarrow>
         (case field_value g v m mtype of
            Inl e \<Rightarrow> Inl (e, st)
          | Inr None \<Rightarrow> struct_loop g name v parent_addr ms st
          | Inr (Some memval) \<Rightarrow>
              if v_address g memval = None then struct_loop g name v parent_addr ms st
              else if field_qualifies g mtype
              then (case discard_alias parent_addr (v_address g memval) st of
                      Inl e \<Rightarrow> Inl e
                    | Inr st1 \<Rightarrow>
                        struct_loop g name v parent_addr ms
                          (append_value (name @ ''['' @ str_name (f_name m) @ '']'') memval st1))
              else struct_loop g name v parent_addr ms st))"

text \<open>The branch on the code of the basic type (source lines 181 to 245).\<close>

definition expand ::
  "('v, 't) gdb \<Rightarrow> string \<Rightarrow> 'v \<Rightarrow> addr option \<Rightarrow> 'v hstate
     \<Rightarrow> (exn \<times> 'v hstate) + 'v hstate" where
  "expand g name v parent_addr st =
     (let type = get_basic_type g (v_type g v)
      in if t_code g type = TYPE_CODE_PTR then expand_ptr g name v type st
         else if t_code g type = TYPE_CODE_ARRAY then expand_array g name v type parent_addr st
         else if t_code g type = TYPE_CODE_STRUCT
         then struct_loop g name v parent_addr (t_fields g type) st
         else Inr st)"

text \<open>
  One iteration of the \<^verbatim>\<open>while values:\<close> loop (source lines 167 to 245).
  \<^verbatim>\<open>if value.address:\<close> is false for \<^verbatim>\<open>None\<close> and for a null address.
\<close>

definition step :: "('v, 't) gdb \<Rightarrow> 'v hstate \<Rightarrow> (exn \<times> 'v hstate) + 'v hstate" where
  "step g st =
     (case values_stack st of
        [] \<Rightarrow> Inr st
      | (name, item) # rest \<Rightarrow>
          let st1 = st\<lparr>values_stack := rest\<rparr>
          in (case item of
                None \<Rightarrow> Inr st1
              | Some v \<Rightarrow>
                  if v_is_optimized_out g v then Inr st1
                  else (case v_address g v of
                          None \<Rightarrow> expand g name v None st1
                        | Some a \<Rightarrow>
                            if a = 0 then expand g name v None st1
                            else if a \<in> unique_value_addrs st1 then Inr st1
                            else expand g name v (Some a)
                                   (st1\<lparr>unique_value_addrs := insert a (unique_value_addrs st1)\<rparr>))))"

text \<open>
  The \<^verbatim>\<open>while\<close> loop. It may run forever, so the result is an option: \<open>None\<close> is
  non-termination, \<open>Some (Inl (e, st))\<close> an exception \<open>e\<close> raised in state \<open>st\<close>,
  \<open>Some (Inr st)\<close> the state in which the loop ends.
\<close>

partial_function (option) heap_usage_loop ::
  "('v, 't) gdb \<Rightarrow> 'v hstate \<Rightarrow> ((exn \<times> 'v hstate) + 'v hstate) option" where
  "heap_usage_loop g st =
     (if values_stack st = [] then Some (Inr st)
      else (case step g st of
              Inl e \<Rightarrow> Some (Inl e)
            | Inr st' \<Rightarrow> heap_usage_loop g st'))"

declare heap_usage_loop.simps [code]

text \<open>The state before the loop (source lines 159 to 163).\<close>

definition init_state :: "string \<Rightarrow> 'v option \<Rightarrow> addr set \<Rightarrow> 'v hstate" where
  "init_state name root blks =
     \<lparr>values_stack = [(name, root)], unique_value_addrs = {}, blk_addrs = blks,
      sz = 0, cnt = 0\<rparr>"

text \<open>
  \<^verbatim>\<open>heap_usage_value(name, value, blk_addrs)\<close>: the outcome (the exception, or the
  pair \<^verbatim>\<open>size, count\<close>) and the caller's set \<^verbatim>\<open>blk_addrs\<close> after the call; \<open>None\<close>
  when the call does not return.
\<close>

definition heap_usage_value ::
  "('v, 't) gdb \<Rightarrow> string \<Rightarrow> 'v option \<Rightarrow> addr set \<Rightarrow> ((exn + int \<times> int) \<times> addr set) option" where
  "heap_usage_value g name root blks =
     (case heap_usage_loop g (init_state name root blks) of
        None \<Rightarrow> None
      | Some (Inl (e, st)) \<Rightarrow> Some (Inl e, blk_addrs st)
      | Some (Inr st) \<Rightarrow> Some (Inr (sz st, cnt st), blk_addrs st))"

section \<open>Reasoning about the loops\<close>

text \<open>The state in which a run of the loop body ends, whether it raised or not.\<close>

definition final_state :: "(exn \<times> 'v hstate) + 'v hstate \<Rightarrow> 'v hstate" where
  "final_state r = (case r of Inl (e, st) \<Rightarrow> st | Inr st \<Rightarrow> st)"

lemma final_state_simps [simp]:
  "final_state (Inl (e, st)) = st" "final_state (Inr st) = st"
  by (simp_all add: final_state_def)

text \<open>The effect of \<^verbatim>\<open>unique_value_addrs.discard(parent_addr)\<close>, if any.\<close>

definition unmark :: "addr option \<Rightarrow> 'v hstate \<Rightarrow> 'v hstate" where
  "unmark p st = (case p of None \<Rightarrow> st
                  | Some a \<Rightarrow> st\<lparr>unique_value_addrs := unique_value_addrs st - {a}\<rparr>)"

lemma discard_alias_cases:
  "final_state (discard_alias p c st) = st \<or> final_state (discard_alias p c st) = unmark p st"
  by (simp add: discard_alias_def unmark_def split: option.splits)

lemma discard_alias_rule:
  assumes "P st" and "P (unmark p st)"
  shows "P (final_state (discard_alias p c st))"
  using assms discard_alias_cases [of p c st] by auto

text \<open>
  Induction over the loops of the array and the struct branch: a property that holds
  before the loop and is kept by every push holds in the state in which the loop ends,
  whether it ended by an exception or not.
\<close>

lemma discard_alias_Inl: "discard_alias p c st = Inl (e, s) \<Longrightarrow> s = st"
  by (auto simp: discard_alias_def split: option.splits if_splits)

lemma array_loop_strong_rule:
  assumes init: "P st"
    and push: "\<And>s s1 i c. P s \<Longrightarrow> i \<in> set is \<Longrightarrow> v_index g v i = Inr c \<Longrightarrow>
                 discard_alias p (v_address g c) s = Inr s1 \<Longrightarrow>
                 P (append_value (name @ ''['' @ str_nat i @ '']'') c s1)"
  shows "P (final_state (array_loop g name v p is st))"
  using init push
proof (induction "is" arbitrary: st)
  case Nil
  then show ?case by simp
next
  case (Cons i "is")
  show ?case
  proof (cases "v_index g v i")
    case (Inl e)
    with Cons.prems(1) show ?thesis by simp
  next
    case (Inr c)
    show ?thesis
    proof (cases "discard_alias p (v_address g c) st")
      case (Inl x)
      obtain e s where x: "x = (e, s)" by (cases x)
      from Inl x have "s = st" by (simp add: discard_alias_Inl)
      moreover from Inr Inl x
      have "array_loop g name v p (i # is) st = Inl (e, s)" by simp
      ultimately show ?thesis using Cons.prems(1) by simp
    next
      case inr: (Inr st1)
      let ?st2 = "append_value (name @ ''['' @ str_nat i @ '']'') c st1"
      have "P ?st2" using Cons.prems(1) _ Inr inr by (rule Cons.prems(2)) simp
      then have "P (final_state (array_loop g name v p is ?st2))"
        by (rule Cons.IH) (rule Cons.prems(2), simp_all)
      moreover from Inr inr
      have "array_loop g name v p (i # is) st = array_loop g name v p is ?st2" by simp
      ultimately show ?thesis by simp
    qed
  qed
qed

lemma struct_loop_strong_rule:
  assumes init: "P st"
    and push: "\<And>s s1 m mtype memval. P s \<Longrightarrow> m \<in> set ms \<Longrightarrow> f_type m = Some mtype \<Longrightarrow>
                 field_value g v m mtype = Inr (Some memval) \<Longrightarrow> v_address g memval \<noteq> None \<Longrightarrow>
                 field_qualifies g mtype \<Longrightarrow>
                 discard_alias p (v_address g memval) s = Inr s1 \<Longrightarrow>
                 P (append_value (name @ ''['' @ str_name (f_name m) @ '']'') memval s1)"
  shows "P (final_state (struct_loop g name v p ms st))"
  using init push
proof (induction ms arbitrary: st)
  case Nil
  then show ?case by simp
next
  case (Cons m ms)
  have skip: "P (final_state (struct_loop g name v p ms st))"
    by (rule Cons.IH [OF Cons.prems(1)]) (rule Cons.prems(2), simp_all)
  show ?case
  proof (cases "f_type m")
    case None
    with skip Cons.prems(1) show ?thesis by (simp split: option.splits)
  next
    case (Some mtype)
    show ?thesis
    proof (cases "field_value g v m mtype")
      case (Inl e)
      with Some Cons.prems(1) show ?thesis by simp
    next
      case (Inr mv)
      show ?thesis
      proof (cases mv)
        case None
        with Some Inr skip show ?thesis by simp
      next
        case mv: (Some memval)
        show ?thesis
        proof (cases "v_address g memval \<noteq> None \<and> field_qualifies g mtype")
          case False
          with Some Inr mv skip show ?thesis by auto
        next
          case True
          show ?thesis
          proof (cases "discard_alias p (v_address g memval) st")
            case (Inl x)
            obtain e s where x: "x = (e, s)" by (cases x)
            from Inl x have "s = st" by (simp add: discard_alias_Inl)
            moreover from Some Inr mv True Inl x
            have "struct_loop g name v p (m # ms) st = Inl (e, s)" by auto
            ultimately show ?thesis using Cons.prems(1) by simp
          next
            case inr: (Inr st1)
            let ?st2 = "append_value (name @ ''['' @ str_name (f_name m) @ '']'') memval st1"
            from True have "v_address g memval \<noteq> None" "field_qualifies g mtype"
              by simp_all
            moreover from Inr mv have "field_value g v m mtype = Inr (Some memval)" by simp
            ultimately have "P ?st2" using Some inr Cons.prems(1)
              by (intro Cons.prems(2)) simp_all
            then have "P (final_state (struct_loop g name v p ms ?st2))"
              by (rule Cons.IH) (rule Cons.prems(2), simp_all)
            moreover from Some Inr mv True inr
            have "struct_loop g name v p (m # ms) st = struct_loop g name v p ms ?st2" by auto
            ultimately show ?thesis by simp
          qed
        qed
      qed
    qed
  qed
qed

text \<open>The same rules for a property that does not look at the visited-address set.\<close>

lemma discard_alias_Inr:
  assumes "discard_alias p c s = Inr s1"
  shows "s1 = s \<or> s1 = unmark p s"
  using discard_alias_cases [of p c s] assms by simp

lemma array_loop_rule:
  assumes init: "P st"
    and unm: "\<And>s. P s \<Longrightarrow> P (unmark p s)"
    and push: "\<And>s i c. P s \<Longrightarrow> i \<in> set is \<Longrightarrow> v_index g v i = Inr c \<Longrightarrow>
                 P (append_value (name @ ''['' @ str_nat i @ '']'') c s)"
  shows "P (final_state (array_loop g name v p is st))"
proof (rule array_loop_strong_rule [of P, OF init])
  fix s s1 i c
  assume s: "P s" and i: "i \<in> set is" "v_index g v i = Inr c"
    and d: "discard_alias p (v_address g c) s = Inr s1"
  from discard_alias_Inr [OF d] s unm have "P s1" by auto
  then show "P (append_value (name @ ''['' @ str_nat i @ '']'') c s1)"
    using i by (rule push)
qed

lemma struct_loop_rule:
  assumes init: "P st"
    and unm: "\<And>s. P s \<Longrightarrow> P (unmark p s)"
    and push: "\<And>s m mtype memval. P s \<Longrightarrow> m \<in> set ms \<Longrightarrow> f_type m = Some mtype \<Longrightarrow>
                 field_value g v m mtype = Inr (Some memval) \<Longrightarrow> v_address g memval \<noteq> None \<Longrightarrow>
                 field_qualifies g mtype \<Longrightarrow>
                 P (append_value (name @ ''['' @ str_name (f_name m) @ '']'') memval s)"
  shows "P (final_state (struct_loop g name v p ms st))"
proof (rule struct_loop_strong_rule [of P, OF init])
  fix s s1 m mtype memval
  assume s: "P s" and m: "m \<in> set ms" "f_type m = Some mtype"
    "field_value g v m mtype = Inr (Some memval)" "v_address g memval \<noteq> None"
    "field_qualifies g mtype"
    and d: "discard_alias p (v_address g memval) s = Inr s1"
  from discard_alias_Inr [OF d] s unm have "P s1" by auto
  then show "P (append_value (name @ ''['' @ str_name (f_name m) @ '']'') memval s1)"
    using m by (rule push)
qed

text \<open>
  What the pointer branch can do: nothing; count a new live block; or count it and push
  the pointee, which needs a target type of at least 8 bytes.
\<close>

lemma expand_ptr_cases:
  "final_state (expand_ptr g name v t st) = st \<or>
   (\<exists>ty v' a blk.
      resolve_dynamic g v t = Inr (ty, v') \<and> v_long g v' = Inr a \<and>
      heap_block g a = Some blk \<and> blk_inuse blk \<and> blk_address blk \<notin> blk_addrs st \<and>
      (final_state (expand_ptr g name v t st) = count_block blk st \<or>
       (\<exists>r. 8 \<le> t_sizeof g (t_target g ty) \<and> v_referenced_value g v' = Inr r \<and>
          expand_ptr g name v t st =
            Inr (append_value (''*('' @ name @ '')'') r (count_block blk st)))))"
  unfolding expand_ptr_def Let_def
  by (auto split: sum.splits option.splits if_splits prod.splits)











section \<open>A table-driven debugger for concrete runs\<close>

text \<open>
  Concrete runs need a concrete debugger. \<open>image_gdb\<close> builds one from three tables: the
  types of the program (a type object is an index into the list), the pointer-sized
  words of its memory (address and content), and the allocator's blocks. A value object
  is a type together with an address; a member or an element is found by its offset
  (\<^verbatim>\<open>hasattr\<close> holds of the names of the members), a pointer is read from the memory
  table (unmapped memory raises MemoryError), and the allocator answers with the first
  block that contains the address. No value is optimized out, the dynamic type of a
  value is its static type, and no type is a typedef.
\<close>

record ctype =
  c_code :: type_code
  c_sizeof :: int
  c_target :: nat
  c_fields :: "(string \<times> nat \<times> int) list"

definition ctype_at :: "ctype list \<Rightarrow> nat \<Rightarrow> ctype" where
  "ctype_at ts t =
     (if t < length ts then ts ! t
      else \<lparr>c_code = TYPE_CODE_VOID, c_sizeof = 1, c_target = t, c_fields = []\<rparr>)"

definition image_gdb ::
  "ctype list \<Rightarrow> (addr \<times> addr) list \<Rightarrow> heap_blk list \<Rightarrow> (nat \<times> addr, nat) gdb" where
  "image_gdb ts mem blks =
     \<lparr>v_is_optimized_out = (\<lambda>v. False),
      v_address = (\<lambda>v. Some (snd v)),
      v_type = fst,
      v_dynamic_type = (\<lambda>v. Inr (fst v)),
      v_cast = (\<lambda>v t. Inr (t, snd v)),
      v_long = (\<lambda>v. case map_of mem (snd v) of None \<Rightarrow> Inl MemoryError | Some p \<Rightarrow> Inr p),
      v_referenced_value =
        (\<lambda>v. case map_of mem (snd v) of
               None \<Rightarrow> Inl MemoryError
             | Some p \<Rightarrow> Inr (c_target (ctype_at ts (fst v)), p)),
      v_index =
        (\<lambda>v i. Inr (c_target (ctype_at ts (fst v)),
                     snd v + int i * c_sizeof (ctype_at ts (c_target (ctype_at ts (fst v)))))),
      v_hasattr = (\<lambda>v n. map_of (c_fields (ctype_at ts (fst v))) n \<noteq> None),
      v_member =
        (\<lambda>v n. case map_of (c_fields (ctype_at ts (fst v))) n of
                 None \<Rightarrow> Inl GdbError
               | Some (t, off) \<Rightarrow> Inr (t, snd v + off)),
      get_basic_type = (\<lambda>t. t),
      t_code = (\<lambda>t. c_code (ctype_at ts t)),
      t_target = (\<lambda>t. c_target (ctype_at ts t)),
      t_sizeof = (\<lambda>t. c_sizeof (ctype_at ts t)),
      t_fields =
        (\<lambda>t. map (\<lambda>(n, ft, off). \<lparr>f_name = Some n, f_type = Some ft, f_is_base_class = False\<rparr>)
               (c_fields (ctype_at ts t))),
      heap_block = (\<lambda>a. find (\<lambda>b. blk_address b \<le> a \<and> a < blk_address b + blk_size b) blks)\<rparr>"


section \<open>Counting of heap blocks\<close>




section \<open>What one iteration pushes\<close>

lemma step_cases:
  assumes "values_stack st = (name, Some v) # rest"
  shows "step g st = Inr (st\<lparr>values_stack := rest\<rparr>) \<or>
         (\<exists>p u. step g st =
                  expand g name v p (st\<lparr>values_stack := rest, unique_value_addrs := u\<rparr>))"
proof -
  have "\<exists>p u. expand g name v q (st\<lparr>values_stack := rest\<rparr>) =
               expand g name v p (st\<lparr>values_stack := rest, unique_value_addrs := u\<rparr>)" for q
    by (rule exI [of _ q], rule exI [of _ "unique_value_addrs st"]) simp
  moreover have "\<exists>p u. expand g name v q (st\<lparr>values_stack := rest, unique_value_addrs := w\<rparr>) =
               expand g name v p (st\<lparr>values_stack := rest, unique_value_addrs := u\<rparr>)" for q w
    by blast
  ultimately show ?thesis
    using assms unfolding step_def Let_def
    by (simp split: option.splits)
qed

lemma expand_ptr_stack:
  assumes "values_stack (final_state (expand_ptr g name v t st)) \<noteq> values_stack st"
  shows "\<exists>ty v' a blk r.
      resolve_dynamic g v t = Inr (ty, v') \<and> v_long g v' = Inr a \<and>
      heap_block g a = Some blk \<and> blk_inuse blk \<and> blk_address blk \<notin> blk_addrs st \<and>
      8 \<le> t_sizeof g (t_target g ty) \<and> v_referenced_value g v' = Inr r \<and>
      values_stack (final_state (expand_ptr g name v t st)) =
        (''*('' @ name @ '')'', Some r) # values_stack st"
  using expand_ptr_cases [of g name v t st] assms
  by (auto simp: count_block_def append_value_def)

lemma step_pointer_push:
  assumes "values_stack st = (name, Some v) # rest"
    and "t_code g (get_basic_type g (v_type g v)) = TYPE_CODE_PTR"
    and "values_stack (final_state (step g st)) \<noteq> rest"
  shows "\<exists>ty v' a blk r.
      resolve_dynamic g v (get_basic_type g (v_type g v)) = Inr (ty, v') \<and>
      v_long g v' = Inr a \<and> heap_block g a = Some blk \<and> blk_inuse blk \<and>
      blk_address blk \<notin> blk_addrs st \<and> 8 \<le> t_sizeof g (t_target g ty) \<and>
      v_referenced_value g v' = Inr r \<and>
      values_stack (final_state (step g st)) = (''*('' @ name @ '')'', Some r) # rest"
proof -
  let ?bt = "get_basic_type g (v_type g v)"
  from step_cases [OF assms(1), of g] assms(3)
  obtain p u where s: "step g st =
      expand g name v p (st\<lparr>values_stack := rest, unique_value_addrs := u\<rparr>)"
    by auto
  let ?s = "st\<lparr>values_stack := rest, unique_value_addrs := u\<rparr>"
  from assms(2) have e: "expand g name v p ?s = expand_ptr g name v ?bt ?s"
    by (simp add: expand_def Let_def)
  with s assms(3) have "values_stack (final_state (expand_ptr g name v ?bt ?s)) \<noteq> values_stack ?s"
    by simp
  from expand_ptr_stack [OF this] s e show ?thesis by simp
qed

text \<open>An item the struct branch may push: the value of a field that passed the test.\<close>

definition pushed_field ::
  "('v, 't) gdb \<Rightarrow> string \<Rightarrow> 'v \<Rightarrow> 't field list \<Rightarrow> string \<times> 'v option \<Rightarrow> bool" where
  "pushed_field g name v ms item \<longleftrightarrow>
     (\<exists>m mtype memval. m \<in> set ms \<and> f_type m = Some mtype \<and> field_qualifies g mtype \<and>
        field_value g v m mtype = Inr (Some memval) \<and>
        item = (name @ ''['' @ str_name (f_name m) @ '']'', Some memval))"


lemma struct_loop_stack:
  fixes st :: "'v hstate"
  shows "\<exists>pushed. values_stack (final_state (struct_loop g name v p ms st)) = pushed @ values_stack st \<and>
            (\<forall>item\<in>set pushed. pushed_field g name v ms item)"
proof (rule struct_loop_rule)
  show "\<exists>pushed. values_stack st = pushed @ values_stack st \<and>
            (\<forall>item\<in>set pushed. pushed_field g name v ms item)"
    by (rule exI [of _ "[]"]) simp
next
  fix s :: "'v hstate"
  assume "\<exists>pushed. values_stack s = pushed @ values_stack st \<and>
            (\<forall>item\<in>set pushed. pushed_field g name v ms item)"
  then show "\<exists>pushed. values_stack (unmark p s) = pushed @ values_stack st \<and>
            (\<forall>item\<in>set pushed. pushed_field g name v ms item)"
    by (simp add: unmark_def split: option.splits)
next
  fix s :: "'v hstate" and m mtype and memval :: 'v
  assume "\<exists>pushed. values_stack s = pushed @ values_stack st \<and>
            (\<forall>item\<in>set pushed. pushed_field g name v ms item)"
    and m: "m \<in> set ms" "f_type m = Some mtype" "field_qualifies g mtype"
      "field_value g v m mtype = Inr (Some memval)"
  then obtain pushed where p: "values_stack s = pushed @ values_stack st"
    "\<forall>item\<in>set pushed. pushed_field g name v ms item" by blast
  let ?item = "(name @ ''['' @ str_name (f_name m) @ '']'', Some memval)"
  from m have "pushed_field g name v ms ?item"
    unfolding pushed_field_def by blast
  with p have "values_stack (append_value (name @ ''['' @ str_name (f_name m) @ '']'') memval s)
                 = (?item # pushed) @ values_stack st \<and>
               (\<forall>item\<in>set (?item # pushed). pushed_field g name v ms item)"
    by (simp add: append_value_def)
  then show "\<exists>pushed. values_stack (append_value (name @ ''['' @ str_name (f_name m) @ '']'') memval s)
                 = pushed @ values_stack st \<and>
               (\<forall>item\<in>set pushed. pushed_field g name v ms item)"
    by blast
qed

section \<open>Pruning by size and kind\<close>



section \<open>Following pointers\<close>

text \<open>
  Claim C10. When an iteration on a pointer pushes anything, it pushes the pointee alone,
  and then the allocator reported the pointer's target inside a block that is in use and
  whose base address was not yet in the block set (and the target type has at least 8
  bytes). So a pointer outside the heap, into a free block or into a block already
  counted is never followed.
\<close>

theorem pointee_pushed_only_for_new_live_block:
  assumes "values_stack st = (name, Some v) # rest"
    and "t_code g (get_basic_type g (v_type g v)) = TYPE_CODE_PTR"
    and "values_stack (final_state (step g st)) \<noteq> rest"
  shows "\<exists>ty v' a blk r.
      resolve_dynamic g v (get_basic_type g (v_type g v)) = Inr (ty, v') \<and>
      v_long g v' = Inr a \<and> heap_block g a = Some blk \<and> blk_inuse blk \<and>
      blk_address blk \<notin> blk_addrs st \<and> 8 \<le> t_sizeof g (t_target g ty) \<and>
      v_referenced_value g v' = Inr r \<and>
      values_stack (final_state (step g st)) = (''*('' @ name @ '')'', Some r) # rest"
  using assms by (rule step_pointer_push)

text \<open>
  A struct \<^verbatim>\<open>Node { long *first; Hdr *h; }\<close> in a live heap block of 16 bytes at 4096,
  where \<^verbatim>\<open>Hdr\<close> is \<^verbatim>\<open>struct { long tag; long len; }\<close>: \<^verbatim>\<open>first\<close> points to a
  live block of 32 bytes at 8192, \<^verbatim>\<open>h\<close> points to the node itself. The types are
  0 \<^verbatim>\<open>long\<close>, 1 \<^verbatim>\<open>long*\<close>, 2 \<^verbatim>\<open>Hdr\<close>, 3 \<^verbatim>\<open>Hdr*\<close>, 4 \<^verbatim>\<open>Node\<close>.
\<close>

definition aliased_node :: "(nat \<times> addr, nat) gdb" where
  "aliased_node =
     image_gdb
       [\<lparr>c_code = TYPE_CODE_INT, c_sizeof = 8, c_target = 0, c_fields = []\<rparr>,
        \<lparr>c_code = TYPE_CODE_PTR, c_sizeof = 8, c_target = 0, c_fields = []\<rparr>,
        \<lparr>c_code = TYPE_CODE_STRUCT, c_sizeof = 16, c_target = 2,
           c_fields = [(''tag'', 0, 0), (''len'', 0, 8)]\<rparr>,
        \<lparr>c_code = TYPE_CODE_PTR, c_sizeof = 8, c_target = 2, c_fields = []\<rparr>,
        \<lparr>c_code = TYPE_CODE_STRUCT, c_sizeof = 16, c_target = 4,
           c_fields = [(''first'', 1, 0), (''h'', 3, 8)]\<rparr>]
       [(4096, 8192), (4104, 4096)]
       [\<lparr>blk_address = 4096, blk_size = 16, blk_inuse = True\<rparr>,
        \<lparr>blk_address = 8192, blk_size = 32, blk_inuse = True\<rparr>]"

theorem pointee_pushed_only_for_new_live_block_witness:
  "values_stack (final_state (step aliased_node
      \<lparr>values_stack = [(''n[h]'', Some (3, 4104))], unique_value_addrs = {},
       blk_addrs = {}, sz = 0, cnt = 0\<rparr>)) = [(''*(n[h])'', Some (2, 4096))] \<and>
   (\<exists>ty v' a blk r.
      resolve_dynamic aliased_node (3, 4104) (get_basic_type aliased_node (v_type aliased_node (3, 4104)))
        = Inr (ty, v') \<and>
      v_long aliased_node v' = Inr a \<and> heap_block aliased_node a = Some blk \<and> blk_inuse blk \<and>
      blk_address blk \<notin> {} \<and> 8 \<le> t_sizeof aliased_node (t_target aliased_node ty) \<and>
      v_referenced_value aliased_node v' = Inr r \<and>
      values_stack (final_state (step aliased_node
        \<lparr>values_stack = [(''n[h]'', Some (3, 4104))], unique_value_addrs = {},
         blk_addrs = {}, sz = 0, cnt = 0\<rparr>)) = [(''*('' @ ''n[h]'' @ '')'', Some r)])"
proof -
  let ?st = "\<lparr>values_stack = [(''n[h]'', Some (3::nat, 4104::int))], unique_value_addrs = {},
       blk_addrs = {}, sz = 0, cnt = 0\<rparr>"
  have h1: "values_stack ?st = (''n[h]'', Some (3, 4104)) # []" by simp
  have h2: "t_code aliased_node (get_basic_type aliased_node (v_type aliased_node (3, 4104)))
              = TYPE_CODE_PTR"
    by code_simp
  have h3: "values_stack (final_state (step aliased_node ?st)) = [(''*(n[h])'', Some (2, 4096))]"
    by code_simp
  then have h4: "values_stack (final_state (step aliased_node ?st)) \<noteq> []" by simp
  from pointee_pushed_only_for_new_live_block [OF h1 h2 h4] h3 show ?thesis by simp
qed


text \<open>
  A struct \<^verbatim>\<open>{ int id; short tag[2]; char *name; }\<close> at 2000 outside the heap,
  whose \<^verbatim>\<open>name\<close> points to a live block of 24 bytes at 6000. The types are
  0 \<^verbatim>\<open>char\<close>, 1 \<^verbatim>\<open>char*\<close>, 2 \<^verbatim>\<open>int\<close>, 3 \<^verbatim>\<open>short[2]\<close>, 4 the struct,
  5 \<^verbatim>\<open>short\<close>.
\<close>

definition small_record :: "(nat \<times> addr, nat) gdb" where
  "small_record =
     image_gdb
       [\<lparr>c_code = TYPE_CODE_INT, c_sizeof = 1, c_target = 0, c_fields = []\<rparr>,
        \<lparr>c_code = TYPE_CODE_PTR, c_sizeof = 8, c_target = 0, c_fields = []\<rparr>,
        \<lparr>c_code = TYPE_CODE_INT, c_sizeof = 4, c_target = 2, c_fields = []\<rparr>,
        \<lparr>c_code = TYPE_CODE_ARRAY, c_sizeof = 4, c_target = 5, c_fields = []\<rparr>,
        \<lparr>c_code = TYPE_CODE_STRUCT, c_sizeof = 16, c_target = 4,
           c_fields = [(''id'', 2, 0), (''tag'', 3, 4), (''name'', 1, 8)]\<rparr>,
        \<lparr>c_code = TYPE_CODE_INT, c_sizeof = 2, c_target = 5, c_fields = []\<rparr>]
       [(2008, 6000)]
       [\<lparr>blk_address = 6000, blk_size = 24, blk_inuse = True\<rparr>]"


section \<open>The first member of a struct, the first element of an array\<close>

text \<open>
  The first \<open>k\<close> iterations of the loop, for looking at the state in the middle of a
  run. An iteration on the empty stack, where the loop has ended, changes nothing.
\<close>

fun steps :: "('v, 't) gdb \<Rightarrow> nat \<Rightarrow> 'v hstate \<Rightarrow> (exn \<times> 'v hstate) + 'v hstate" where
  "steps g 0 st = Inr st"
| "steps g (Suc k) st = (case step g st of Inl e \<Rightarrow> Inl e | Inr st' \<Rightarrow> steps g k st')"










text \<open>
  An array \<^verbatim>\<open>X *a[2]\<close> in a live heap block of 16 bytes at 4096, with
  \<^verbatim>\<open>X\<close> a \<^verbatim>\<open>struct { long n; long m; }\<close>: \<^verbatim>\<open>a[0]\<close> points to a live block of
  32 bytes at 8192, \<^verbatim>\<open>a[1]\<close> to the array itself. The types are 0 \<^verbatim>\<open>long\<close>,
  1 \<^verbatim>\<open>X\<close>, 2 \<^verbatim>\<open>X*\<close>, 3 \<^verbatim>\<open>X*[2]\<close>.
\<close>

definition aliased_array :: "(nat \<times> addr, nat) gdb" where
  "aliased_array =
     image_gdb
       [\<lparr>c_code = TYPE_CODE_INT, c_sizeof = 8, c_target = 0, c_fields = []\<rparr>,
        \<lparr>c_code = TYPE_CODE_STRUCT, c_sizeof = 16, c_target = 1,
           c_fields = [(''n'', 0, 0), (''m'', 0, 8)]\<rparr>,
        \<lparr>c_code = TYPE_CODE_PTR, c_sizeof = 8, c_target = 1, c_fields = []\<rparr>,
        \<lparr>c_code = TYPE_CODE_ARRAY, c_sizeof = 16, c_target = 2, c_fields = []\<rparr>]
       [(4096, 8192), (4104, 4096)]
       [\<lparr>blk_address = 4096, blk_size = 16, blk_inuse = True\<rparr>,
        \<lparr>blk_address = 8192, blk_size = 32, blk_inuse = True\<rparr>]"


section \<open>Unions\<close>

text \<open>
  A union \<^verbatim>\<open>U { char *p; long n; }\<close> at 3000 whose \<^verbatim>\<open>p\<close> points into a live block
  of 24 bytes at 6000, and a struct \<^verbatim>\<open>W { long pad; U u; }\<close> at 3100 whose member
  \<^verbatim>\<open>u\<close> holds the same pointer. The types are 0 \<^verbatim>\<open>char\<close>, 1 \<^verbatim>\<open>char*\<close>, 2 \<^verbatim>\<open>U\<close>,
  3 \<^verbatim>\<open>long\<close>, 4 a struct \<^verbatim>\<open>S { char *p; }\<close> (the layout of \<^verbatim>\<open>U\<close>, as a struct),
  5 \<^verbatim>\<open>W\<close>.
\<close>

definition union_holder :: "(nat \<times> addr, nat) gdb" where
  "union_holder =
     image_gdb
       [\<lparr>c_code = TYPE_CODE_INT, c_sizeof = 1, c_target = 0, c_fields = []\<rparr>,
        \<lparr>c_code = TYPE_CODE_PTR, c_sizeof = 8, c_target = 0, c_fields = []\<rparr>,
        \<lparr>c_code = TYPE_CODE_UNION, c_sizeof = 8, c_target = 2,
           c_fields = [(''p'', 1, 0), (''n'', 3, 0)]\<rparr>,
        \<lparr>c_code = TYPE_CODE_INT, c_sizeof = 8, c_target = 3, c_fields = []\<rparr>,
        \<lparr>c_code = TYPE_CODE_STRUCT, c_sizeof = 8, c_target = 4, c_fields = [(''p'', 1, 0)]\<rparr>,
        \<lparr>c_code = TYPE_CODE_STRUCT, c_sizeof = 16, c_target = 5,
           c_fields = [(''pad'', 3, 0), (''u'', 2, 8)]\<rparr>]
       [(3000, 6000), (3108, 6000)]
       [\<lparr>blk_address = 6000, blk_size = 24, blk_inuse = True\<rparr>]"

text \<open>
  Claim C4 says that the fields of a value are walked when its basic type is a struct or
  a union. The branch on the type code (source line 208) tests for
  \<^verbatim>\<open>TYPE_CODE_STRUCT\<close> only, so a union is never expanded, although the test on a
  field's type (source line 235) lets union members through to the stack. On the union
  the call returns \<open>(0, 0)\<close>; on a struct of the same layout at the same address it
  returns the block; and the struct \<^verbatim>\<open>W\<close> pushes its union member for nothing.
\<close>

theorem union_fields_not_walked:
  "heap_usage_value union_holder ''u'' (Some (2, 3000)) {} = Some (Inr (0, 0), {}) \<and>
   heap_usage_value union_holder ''s'' (Some (4, 3000)) {} = Some (Inr (24, 1), {6000}) \<and>
   values_stack (final_state (step union_holder (init_state ''w'' (Some (5, 3100)) {}))) =
     [(''w[u]'', Some (2, 3108))] \<and>
   heap_usage_value union_holder ''w'' (Some (5, 3100)) {} = Some (Inr (0, 0), {})"
  by code_simp

section \<open>Termination and repeated addresses\<close>

text \<open>The base addresses of the blocks the allocator reports as in use.\<close>

definition live_block_addrs :: "('v, 't) gdb \<Rightarrow> addr set" where
  "live_block_addrs g = {b. \<exists>a blk. heap_block g a = Some blk \<and> blk_inuse blk \<and> b = blk_address blk}"

text \<open>
  \<open>contained g v c\<close>: the value \<open>c\<close> is an element of the array \<open>v\<close>, or the value of a
  field of the struct \<open>v\<close> that passes the test on the field's type. These are the
  children the array and struct branches push.
\<close>

definition contained :: "('v, 't) gdb \<Rightarrow> 'v \<Rightarrow> 'v \<Rightarrow> bool" where
  "contained g v c \<longleftrightarrow>
     (let type = get_basic_type g (v_type g v)
      in (t_code g type = TYPE_CODE_ARRAY \<and>
          (\<exists>i. i < nat (t_sizeof g type div t_sizeof g (t_target g type)) \<and> v_index g v i = Inr c)) \<or>
         (t_code g type = TYPE_CODE_STRUCT \<and>
          (\<exists>m mtype. m \<in> set (t_fields g type) \<and> f_type m = Some mtype \<and>
             field_qualifies g mtype \<and> field_value g v m mtype = Inr (Some c))))"

text \<open>The order on work items that containment induces.\<close>

definition item_order :: "('v, 't) gdb \<Rightarrow> ((string \<times> 'v option) \<times> (string \<times> 'v option)) set" where
  "item_order g = {(x, y). \<exists>c v. snd x = Some c \<and> snd y = Some v \<and> contained g v c}"

lemma wf_item_order:
  assumes "wf {(c, v). contained g v c}"
  shows "wf (item_order g)"
proof (rule wf_subset)
  show "wf (inv_image {(c, v). contained g v c} (\<lambda>x. the (snd x)))"
    using assms by (rule wf_inv_image)
  show "item_order g \<subseteq> inv_image {(c, v). contained g v c} (\<lambda>x. the (snd x))"
    by (auto simp: item_order_def inv_image_def)
qed

text \<open>
  The order in which every iteration descends: the number of blocks of \<open>B\<close> not yet
  counted, then the multiset of the items on the stack.
\<close>

definition loop_order :: "('v, 't) gdb \<Rightarrow> addr set \<Rightarrow> ('v hstate \<times> 'v hstate) set" where
  "loop_order g B =
     inv_image (less_than <*lex*> mult (item_order g))
       (\<lambda>st. (card (B - blk_addrs st), mset (values_stack st)))"

lemma wf_loop_order: "wf {(c, v). contained g v c} \<Longrightarrow> wf (loop_order g B)"
  unfolding loop_order_def
  by (intro wf_inv_image wf_lex_prod wf_less_than wf_mult wf_item_order)

lemma loop_order_pushed:
  assumes "values_stack st = x # rest" and "values_stack st' = pushed @ rest"
    and "blk_addrs st' = blk_addrs st"
    and "\<forall>y\<in>set pushed. (y, x) \<in> item_order g"
  shows "(st', st) \<in> loop_order g B"
proof -
  have "(mset rest + mset pushed, mset rest + {#x#}) \<in> mult (item_order g)"
    by (rule one_step_implies_mult) (use assms(4) in auto)
  then have "(mset (values_stack st'), mset (values_stack st)) \<in> mult (item_order g)"
    using assms(1,2) by (simp add: add.commute)
  then show ?thesis using assms(3) by (simp add: loop_order_def)
qed

lemma loop_order_block:
  assumes "finite B" and "b \<in> B" and "b \<notin> blk_addrs st"
    and "blk_addrs st' = insert b (blk_addrs st)"
  shows "(st', st) \<in> loop_order g B"
proof -
  have "B - insert b (blk_addrs st) \<subset> B - blk_addrs st" using assms(2,3) by auto
  then have "card (B - insert b (blk_addrs st)) < card (B - blk_addrs st)"
    using assms(1) by (intro psubset_card_mono) auto
  then show ?thesis using assms(4) by (simp add: loop_order_def)
qed

lemma array_loop_frame:
  fixes st :: "'v hstate"
  shows "blk_addrs (final_state (array_loop g name v p is st)) = blk_addrs st \<and>
    (\<exists>pushed. values_stack (final_state (array_loop g name v p is st)) = pushed @ values_stack st \<and>
       (\<forall>y\<in>set pushed. \<exists>i c. i \<in> set is \<and> v_index g v i = Inr c \<and> snd y = Some c))"
proof (rule array_loop_rule)
  show "blk_addrs st = blk_addrs st \<and>
    (\<exists>pushed. values_stack st = pushed @ values_stack st \<and>
       (\<forall>y\<in>set pushed. \<exists>i c. i \<in> set is \<and> v_index g v i = Inr c \<and> snd y = Some c))"
    by simp
next
  fix s :: "'v hstate"
  assume "blk_addrs s = blk_addrs st \<and>
    (\<exists>pushed. values_stack s = pushed @ values_stack st \<and>
       (\<forall>y\<in>set pushed. \<exists>i c. i \<in> set is \<and> v_index g v i = Inr c \<and> snd y = Some c))"
  then show "blk_addrs (unmark p s) = blk_addrs st \<and>
    (\<exists>pushed. values_stack (unmark p s) = pushed @ values_stack st \<and>
       (\<forall>y\<in>set pushed. \<exists>i c. i \<in> set is \<and> v_index g v i = Inr c \<and> snd y = Some c))"
    by (simp add: unmark_def split: option.splits)
next
  fix s :: "'v hstate" and i and c :: 'v
  assume a: "blk_addrs s = blk_addrs st \<and>
    (\<exists>pushed. values_stack s = pushed @ values_stack st \<and>
       (\<forall>y\<in>set pushed. \<exists>i c. i \<in> set is \<and> v_index g v i = Inr c \<and> snd y = Some c))"
    and i: "i \<in> set is" "v_index g v i = Inr c"
  then obtain pushed where p: "values_stack s = pushed @ values_stack st"
    "\<forall>y\<in>set pushed. \<exists>i c. i \<in> set is \<and> v_index g v i = Inr c \<and> snd y = Some c"
    by blast
  let ?n = "name @ ''['' @ str_nat i @ '']''"
  have "values_stack (append_value ?n c s) = ((?n, Some c) # pushed) @ values_stack st"
    using p(1) by (simp add: append_value_def)
  moreover have "\<forall>y\<in>set ((?n, Some c) # pushed).
      \<exists>i c. i \<in> set is \<and> v_index g v i = Inr c \<and> snd y = Some c"
    using p(2) i by auto
  moreover have "blk_addrs (append_value ?n c s) = blk_addrs st"
    using a by (simp add: append_value_def)
  ultimately show "blk_addrs (append_value ?n c s) = blk_addrs st \<and>
    (\<exists>pushed. values_stack (append_value ?n c s) = pushed @ values_stack st \<and>
       (\<forall>y\<in>set pushed. \<exists>i c. i \<in> set is \<and> v_index g v i = Inr c \<and> snd y = Some c))"
    by blast
qed

lemma struct_loop_blocks:
  fixes st :: "'v hstate"
  shows "blk_addrs (final_state (struct_loop g name v p ms st)) = blk_addrs st"
  by (rule struct_loop_rule) (simp_all add: unmark_def append_value_def split: option.splits)


lemma expand_decreases:
  fixes s :: "'v hstate"
  assumes fin: "finite B" and live: "live_block_addrs g \<subseteq> B"
    and st: "values_stack st = (name, Some v) # rest"
    and s: "values_stack s = rest" "blk_addrs s = blk_addrs st"
    and e: "expand g name v p s = Inr st'"
  shows "(st', st) \<in> loop_order g B"
proof -
  let ?bt = "get_basic_type g (v_type g v)"
  have same: "(s', st) \<in> loop_order g B"
    if "values_stack s' = rest" "blk_addrs s' = blk_addrs st" for s' :: "'v hstate"
    using st that by (intro loop_order_pushed [where pushed = "[]"]) simp_all
  consider (ptr) "t_code g ?bt = TYPE_CODE_PTR"
    | (arr) "t_code g ?bt = TYPE_CODE_ARRAY"
    | (str) "t_code g ?bt = TYPE_CODE_STRUCT"
    | (other) "t_code g ?bt \<noteq> TYPE_CODE_PTR" "t_code g ?bt \<noteq> TYPE_CODE_ARRAY"
        "t_code g ?bt \<noteq> TYPE_CODE_STRUCT"
    by blast
  then show ?thesis
  proof cases
    case ptr
    with e have ep: "expand_ptr g name v ?bt s = Inr st'" by (simp add: expand_def Let_def)
    from expand_ptr_cases [of g name v ?bt s] ep
    consider "st' = s"
      | a blk where "heap_block g a = Some blk" "blk_inuse blk" "blk_address blk \<notin> blk_addrs s"
          "blk_addrs st' = insert (blk_address blk) (blk_addrs s)"
      by (auto simp: count_block_def append_value_def)
    then show ?thesis
    proof cases
      case 1
      with s same show ?thesis by simp
    next
      case 2
      from 2(1,2) live have "blk_address blk \<in> B" by (auto simp: live_block_addrs_def)
      with fin 2(3,4) s(2) show ?thesis by (intro loop_order_block) simp_all
    qed
  next
    case arr
    let ?is = "[0..<nat (t_sizeof g ?bt div t_sizeof g (t_target g ?bt))]"
    from arr e have ea: "array_loop g name v p ?is s = Inr st'"
      by (simp add: expand_def Let_def expand_array_def split: if_splits)
    from array_loop_frame [of g name v p ?is s] ea
    obtain pushed where p: "blk_addrs st' = blk_addrs s" "values_stack st' = pushed @ values_stack s"
      "\<forall>y\<in>set pushed. \<exists>i c. i \<in> set ?is \<and> v_index g v i = Inr c \<and> snd y = Some c"
      by auto
    have "\<forall>y\<in>set pushed. (y, (name, Some v)) \<in> item_order g"
    proof
      fix y assume "y \<in> set pushed"
      with p(3) obtain i c where "i \<in> set ?is" "v_index g v i = Inr c" "snd y = Some c" by blast
      with arr show "(y, (name, Some v)) \<in> item_order g"
        by (auto simp: item_order_def contained_def Let_def)
    qed
    with st p(1,2) s show ?thesis by (intro loop_order_pushed [where pushed = pushed]) simp_all
  next
    case str
    let ?ms = "t_fields g ?bt"
    from str e have es: "struct_loop g name v p ?ms s = Inr st'"
      by (simp add: expand_def Let_def)
    from struct_loop_stack [of g name v p ?ms s] struct_loop_blocks [of g name v p ?ms s] es
    obtain pushed where p: "blk_addrs st' = blk_addrs s" "values_stack st' = pushed @ values_stack s"
      "\<forall>y\<in>set pushed. pushed_field g name v ?ms y"
      by auto
    have "\<forall>y\<in>set pushed. (y, (name, Some v)) \<in> item_order g"
    proof
      fix y assume "y \<in> set pushed"
      with p(3) have "pushed_field g name v ?ms y" by blast
      then obtain m mtype memval where "m \<in> set ?ms" "f_type m = Some mtype"
        "field_qualifies g mtype" "field_value g v m mtype = Inr (Some memval)"
        "snd y = Some memval"
        unfolding pushed_field_def by auto
      with str show "(y, (name, Some v)) \<in> item_order g"
        unfolding item_order_def contained_def Let_def by auto
    qed
    with st p(1,2) s show ?thesis by (intro loop_order_pushed [where pushed = pushed]) simp_all
  next
    case other
    with e have "st' = s" by (simp add: expand_def Let_def)
    with s same show ?thesis by simp
  qed
qed

lemma step_decreases:
  assumes fin: "finite B" and live: "live_block_addrs g \<subseteq> B"
    and ne: "values_stack st \<noteq> []"
    and e: "step g st = Inr st'"
  shows "(st', st) \<in> loop_order g B"
proof -
  from ne obtain name item rest where st: "values_stack st = (name, item) # rest"
    by (cases "values_stack st") auto
  have same: "(st\<lparr>values_stack := rest\<rparr>, st) \<in> loop_order g B"
    using st by (intro loop_order_pushed [where pushed = "[]"]) simp_all
  show ?thesis
  proof (cases item)
    case None
    with st e have "st' = st\<lparr>values_stack := rest\<rparr>" by (simp add: step_def)
    with same show ?thesis by simp
  next
    case (Some v)
    with st have st': "values_stack st = (name, Some v) # rest" by simp
    from step_cases [OF st', of g] e
    consider "st' = st\<lparr>values_stack := rest\<rparr>"
      | p u where "expand g name v p (st\<lparr>values_stack := rest, unique_value_addrs := u\<rparr>) = Inr st'"
      by auto
    then show ?thesis
    proof cases
      case 1
      with same show ?thesis by simp
    next
      case 2
      show ?thesis
        by (rule expand_decreases [OF fin live st' _ _ 2]) simp_all
    qed
  qed
qed

lemma heap_usage_loop_terminates:
  assumes wf: "wf {(c, v). contained g v c}" and fin: "finite (live_block_addrs g)"
  shows "heap_usage_loop g st \<noteq> None"
proof (induction st rule: wf_induct_rule [OF wf_loop_order [OF wf, of "live_block_addrs g"]])
  case (1 st)
  show ?case
  proof (cases "values_stack st = []")
    case True
    then show ?thesis by (subst heap_usage_loop.simps) simp
  next
    case False
    show ?thesis
    proof (cases "step g st")
      case (Inl e)
      with False show ?thesis by (subst heap_usage_loop.simps) simp
    next
      case (Inr st')
      from step_decreases [OF fin subset_refl False Inr]
      have "heap_usage_loop g st' \<noteq> None" by (rule 1)
      with False Inr show ?thesis by (subst heap_usage_loop.simps) simp
    qed
  qed
qed


text \<open>
  \<open>expands_at g st v a\<close>: the next iteration pops the value \<open>v\<close>, finds its address \<open>a\<close>
  not in the visited-address set and goes on to expand it (source lines 167 to 177).
\<close>

definition expands_at :: "('v, 't) gdb \<Rightarrow> 'v hstate \<Rightarrow> 'v \<Rightarrow> addr \<Rightarrow> bool" where
  "expands_at g st v a \<longleftrightarrow>
     (case values_stack st of
        [] \<Rightarrow> False
      | (name, item) # rest \<Rightarrow>
          item = Some v \<and> \<not> v_is_optimized_out g v \<and> v_address g v = Some a \<and>
          a \<noteq> 0 \<and> a \<notin> unique_value_addrs st)"

text \<open>
  A struct \<^verbatim>\<open>S { long *data; S *self; }\<close> in a live heap block of 16 bytes at 4096:
  \<^verbatim>\<open>data\<close> points to a live block of 32 bytes at 8192, \<^verbatim>\<open>self\<close> to the struct
  itself. The types are 0 \<^verbatim>\<open>long\<close>, 1 \<^verbatim>\<open>long*\<close>, 2 \<^verbatim>\<open>S\<close>, 3 \<^verbatim>\<open>S*\<close>.
\<close>

definition self_node :: "(nat \<times> addr, nat) gdb" where
  "self_node =
     image_gdb
       [\<lparr>c_code = TYPE_CODE_INT, c_sizeof = 8, c_target = 0, c_fields = []\<rparr>,
        \<lparr>c_code = TYPE_CODE_PTR, c_sizeof = 8, c_target = 0, c_fields = []\<rparr>,
        \<lparr>c_code = TYPE_CODE_STRUCT, c_sizeof = 16, c_target = 2,
           c_fields = [(''data'', 1, 0), (''self'', 3, 8)]\<rparr>,
        \<lparr>c_code = TYPE_CODE_PTR, c_sizeof = 8, c_target = 2, c_fields = []\<rparr>]
       [(4096, 8192), (4104, 4096)]
       [\<lparr>blk_address = 4096, blk_size = 16, blk_inuse = True\<rparr>,
        \<lparr>blk_address = 8192, blk_size = 32, blk_inuse = True\<rparr>]"

lemma image_gdb_live_blocks:
  "live_block_addrs (image_gdb ts mem blks) \<subseteq> blk_address ` set blks"
  by (auto simp: live_block_addrs_def image_gdb_def find_Some_iff)

lemma self_node_contained:
  assumes "contained self_node v c"
  shows "fst v = 2 \<and> fst c \<noteq> 2"
  using assms
  unfolding contained_def self_node_def image_gdb_def Let_def ctype_at_def field_value_def
  by (auto simp: nth_Cons' split: if_splits option.splits)

text \<open>
  Claim C2, as amended. If containment (elements of arrays, fields of structs) is
  well-founded, so that the value graph is cyclic through pointers only, and the
  allocator has finitely many blocks in use, then \<^verbatim>\<open>heap_usage_value\<close> terminates, by
  returning or by raising; and an item popped while its non-null address is in the
  visited-address set is skipped: the iteration only removes it from the stack.
\<close>

theorem heap_usage_value_terminates:
  assumes "wf {(c, v). contained g v c}" and "finite (live_block_addrs g)"
  shows "heap_usage_value g name root blks \<noteq> None \<and>
         (\<forall>st n v a rest. values_stack st = (n, Some v) # rest \<and> v_address g v = Some a \<and>
              a \<noteq> 0 \<and> a \<in> unique_value_addrs st
            \<longrightarrow> step g st = Inr (st\<lparr>values_stack := rest\<rparr>))"
proof
  from heap_usage_loop_terminates [OF assms]
  show "heap_usage_value g name root blks \<noteq> None"
    by (auto simp: heap_usage_value_def split: option.splits sum.splits)
next
  show "\<forall>st n v a rest. values_stack st = (n, Some v) # rest \<and> v_address g v = Some a \<and>
              a \<noteq> 0 \<and> a \<in> unique_value_addrs st
            \<longrightarrow> step g st = Inr (st\<lparr>values_stack := rest\<rparr>)"
    by (simp add: step_def Let_def)
qed

theorem heap_usage_value_terminates_witness:
  "wf {(c, v). contained self_node v c} \<and> finite (live_block_addrs self_node) \<and>
   heap_usage_value self_node ''n'' (Some (2, 4096)) {} \<noteq> None \<and>
   heap_usage_value self_node ''n'' (Some (2, 4096)) {} = Some (Inr (48, 2), {4096, 8192})"
proof -
  have h1: "wf {(c, v). contained self_node v c}"
  proof (rule wf_subset)
    show "wf (measure (\<lambda>v :: nat \<times> addr. if fst v = 2 then 1 else 0))" by simp
    show "{(c, v). contained self_node v c}
            \<subseteq> measure (\<lambda>v :: nat \<times> addr. if fst v = 2 then 1 else 0)"
    proof (rule subsetI, clarify)
      fix c v :: "nat \<times> addr"
      assume "contained self_node v c"
      from self_node_contained [OF this]
      show "(c, v) \<in> measure (\<lambda>v :: nat \<times> addr. if fst v = 2 then 1 else 0)" by simp
    qed
  qed
  have h2: "finite (live_block_addrs self_node)"
    unfolding self_node_def by (rule finite_subset [OF image_gdb_live_blocks]) simp
  have h3: "heap_usage_value self_node ''n'' (Some (2, 4096)) {} = Some (Inr (48, 2), {4096, 8192})"
    by code_simp
  from heap_usage_value_terminates [OF h1 h2, of "''n''" "Some (2, 4096)" "{}"] h1 h2 h3
  show ?thesis by simp
qed

text \<open>
  The claim as stated also says that no address is expanded twice. On
  \<open>aliased_array\<close> the first iteration expands the array at 4096 and un-marks 4096
  for its first element; the second follows \<^verbatim>\<open>a[1]\<close> back into the array's block,
  and the third expands the address 4096 again, as the pointee of \<^verbatim>\<open>a[1]\<close>.
\<close>

theorem address_expanded_twice_counterexample:
  "expands_at aliased_array (final_state (steps aliased_array 0 (init_state ''a'' (Some (3, 4096)) {})))
     (3, 4096) 4096 \<and>
   expands_at aliased_array (final_state (steps aliased_array 2 (init_state ''a'' (Some (3, 4096)) {})))
     (1, 4096) 4096 \<and>
   heap_usage_value aliased_array ''a'' (Some (3, 4096)) {} = Some (Inr (16, 1), {4096})"
  by code_simp

section \<open>The topvars command\<close>

text \<open>
  What the command reads from GDB beyond values and types. A symbol carries its type and
  what \<^verbatim>\<open>symbol.value(...)\<close> gives; a lexical block its symbols; a frame what
  \<^verbatim>\<open>frame.select()\<close> does and the chain of blocks from \<^verbatim>\<open>frame.block()\<close> along
  \<^verbatim>\<open>superblock\<close> (\<open>None\<close> when \<^verbatim>\<open>frame.block()\<close> raises); a thread what
  \<^verbatim>\<open>thread.switch()\<close> does and its frames from the newest one on, where
  \<open>thr_unwind = Some e\<close> means that asking for the frame after the last one listed
  (\<^verbatim>\<open>gdb.newest_frame()\<close> when none is listed, \<^verbatim>\<open>frame.older()\<close> otherwise) raises
  \<open>e\<close> instead of returning \<^verbatim>\<open>None\<close>.
\<close>

record ('v, 't) symbol =
  sym_name :: string
  sym_filename :: string
  sym_is_valid :: bool
  sym_is_variable :: bool
  sym_type :: 't
  sym_value :: "exn + 'v"

record ('v, 't) block =
  b_is_global :: bool
  b_is_static :: bool
  b_symbols :: "('v, 't) symbol list"

record ('v, 't) frame =
  fr_select :: "exn option"
  fr_block :: "('v, 't) block list option"

record ('v, 't) thread =
  thr_num :: nat
  thr_switch :: "exn option"
  thr_frames :: "('v, 't) frame list"
  thr_unwind :: "exn option"

text \<open>
  The session: the thread selected when the command starts, the threads of the
  inferior, \<^verbatim>\<open>gdb.global_and_static_symbols()\<close>, \<^verbatim>\<open>gdb.parse_and_eval\<close>,
  \<^verbatim>\<open>gdb.lookup_global_symbol\<close>, the truth value of a \<^verbatim>\<open>gdb.Value\<close>, the tag of a
  type and the output of the command \<^verbatim>\<open>whatis\<close>.
\<close>

record ('v, 't) session =
  selected_thread :: "nat option"
  threads :: "('v, 't) thread list"
  global_and_static_symbols :: "('v, 't) symbol list"
  parse_and_eval :: "string \<Rightarrow> exn + 'v"
  lookup_global_symbol :: "string \<Rightarrow> ('v, 't) symbol option"
  v_bool :: "'v \<Rightarrow> bool"
  t_tag :: "'t \<Rightarrow> string option"
  whatis :: "string \<Rightarrow> exn + string"

text \<open>Python's \<^verbatim>\<open>str\<close> of an integer and of an exception, and \<^verbatim>\<open>rstrip\<close>.\<close>

definition str_int :: "int \<Rightarrow> string" where
  "str_int i = (if i < 0 then ''-'' @ str_nat (nat (- i)) else str_nat (nat i))"

fun str_exn :: "exn \<Rightarrow> string" where
  "str_exn GdbError = ''gdb.error''"
| "str_exn MemoryError = ''gdb.MemoryError''"
| "str_exn RuntimeError = ''RuntimeError''"
| "str_exn TypeError = ''TypeError''"
| "str_exn ZeroDivisionError = ''ZeroDivisionError''"
| "str_exn IndexError = ''IndexError''"
| "str_exn AttributeError = ''AttributeError''"
| "str_exn UnboundLocalError = ''UnboundLocalError''"

definition is_space :: "char \<Rightarrow> bool" where
  "is_space c \<longleftrightarrow> c \<in> set [CHR '' '', CHR 0x09, CHR 0x0A, CHR 0x0B, CHR 0x0C, CHR 0x0D]"

definition rstrip :: "string \<Rightarrow> string" where
  "rstrip s = rev (dropWhile is_space (rev s))"

text \<open>\<^verbatim>\<open>argument.split()\<close>: the maximal runs of characters that are not white space.\<close>

fun split_from :: "string \<Rightarrow> string \<Rightarrow> string list" where
  "split_from cur [] = (if cur = [] then [] else [rev cur])"
| "split_from cur (c # cs) =
     (if is_space c then (if cur = [] then split_from [] cs else rev cur # split_from [] cs)
      else split_from (c # cur) cs)"

definition split :: "string \<Rightarrow> string list" where
  "split s = split_from [] s"

text \<open>A string or \<^verbatim>\<open>None\<close> in a condition: \<^verbatim>\<open>None\<close> and the empty string are false.\<close>

definition truthy :: "string option \<Rightarrow> bool" where
  "truthy n \<longleftrightarrow> (case n of None \<Rightarrow> False | Some s \<Rightarrow> s \<noteq> [])"

text \<open>
  \<^verbatim>\<open>symbol2value\<close> (source lines 249 to 262): every exception is caught and gives
  \<^verbatim>\<open>None\<close>. The line it prints then is not modelled.
\<close>

definition symbol2value :: "('v, 't) symbol \<Rightarrow> 'v option" where
  "symbol2value symbol =
     (if sym_is_valid symbol \<and> sym_is_variable symbol
      then (case sym_value symbol of Inl e \<Rightarrow> None | Inr v \<Rightarrow> Some v)
      else None)"

text \<open>
  \<^verbatim>\<open>get_typename\<close> (source lines 264 to 275). Only RuntimeError is caught, of which
  \<^verbatim>\<open>gdb.error\<close> and \<^verbatim>\<open>gdb.MemoryError\<close> are subclasses; the name stays what the tag
  was. The result is a string or \<^verbatim>\<open>None\<close>.
\<close>

definition is_RuntimeError :: "exn \<Rightarrow> bool" where
  "is_RuntimeError e \<longleftrightarrow> e = RuntimeError \<or> e = GdbError \<or> e = MemoryError"

definition get_typename :: "('v, 't) session \<Rightarrow> 't \<Rightarrow> string \<Rightarrow> exn + string option" where
  "get_typename s type expr =
     (let type_name = t_tag s type
      in if truthy type_name then Inr type_name
         else (case whatis s expr of
                 Inl e \<Rightarrow> if is_RuntimeError e then Inr type_name else Inl e
               | Inr out \<Rightarrow> Inr (Some (drop 7 (rstrip out)))))"

subsection \<open>Expressions given as arguments\<close>

text \<open>
  The loop of \<^verbatim>\<open>calc_input_vars\<close> (source lines 298 to 318) over the expressions left;
  \<open>out\<close> is what has been printed. The printed line concatenates the type name, which
  raises TypeError when \<^verbatim>\<open>get_typename\<close> gave \<^verbatim>\<open>None\<close>. Nothing in the loop catches
  an exception.
\<close>

definition resolve_input ::
  "('v, 't) session \<Rightarrow> string \<Rightarrow> 'v \<Rightarrow> string list \<Rightarrow> 'v option \<times> string list" where
  "resolve_input s expr v0 out =
     (if \<not> v_bool s v0
      then (case lookup_global_symbol s expr of
              Some symbol \<Rightarrow>
                (case symbol2value symbol of
                   None \<Rightarrow> (None, out @ [''symbol2value failed for: '' @ sym_name symbol])
                 | Some v \<Rightarrow>
                     if \<not> v_bool s v
                     then (Some v, out @ [''symbol2value failed for: '' @ sym_name symbol])
                     else (Some v, out))
            | None \<Rightarrow> (Some v0, out @ [''gdb.lookup_global_symbol failed for: '' @ expr]))
      else (Some v0, out))"

fun calc_input_loop ::
  "('v, 't) gdb \<Rightarrow> ('v, 't) session \<Rightarrow> string list \<Rightarrow> string list
     \<Rightarrow> ((exn \<times> string list) + string list) option" where
  "calc_input_loop g s [] out = Some (Inr out)"
| "calc_input_loop g s (expr # rest) out =
     (case parse_and_eval s expr of
        Inl e \<Rightarrow> Some (Inl (e, out))
      | Inr v0 \<Rightarrow>
          (case resolve_input s expr v0 out of
             (None, out1) \<Rightarrow>
               calc_input_loop g s rest (out1 @ [''gdb.parse_and_eval failed for: '' @ expr])
           | (Some v, out1) \<Rightarrow>
               if v_bool s v
               then (case heap_usage_value g expr (Some v) {} of
                       None \<Rightarrow> None
                     | Some (Inl e, blks) \<Rightarrow> Some (Inl (e, out1))
                     | Some (Inr (sz1, cnt1), blks) \<Rightarrow>
                         (case get_typename s (v_type g v) expr of
                            Inl e \<Rightarrow> Some (Inl (e, out1))
                          | Inr None \<Rightarrow> Some (Inl (TypeError, out1))
                          | Inr (Some type_name) \<Rightarrow>
                              calc_input_loop g s rest
                                (out1 @ [''expr='' @ expr @ '' type='' @ type_name @ '' size=''
                                   @ str_int (t_sizeof g (v_type g v)) @ '' heap='' @ str_int sz1
                                   @ '' count='' @ str_int cnt1])))
               else calc_input_loop g s rest
                      (out1 @ [''gdb.parse_and_eval failed for: '' @ expr])))"

definition calc_input_vars ::
  "('v, 't) gdb \<Rightarrow> ('v, 't) session \<Rightarrow> string \<Rightarrow> string list
     \<Rightarrow> ((exn \<times> string list) + string list) option" where
  "calc_input_vars g s argument out =
     (let tokens = split argument
      in if tokens = [] then Some (Inr (out @ [''Invalid argument: ['' @ argument @ '']'']))
         else calc_input_loop g s tokens out)"

subsection \<open>The scan of all variables\<close>

text \<open>
  The variables of \<^verbatim>\<open>calc_all_vars\<close>, and what it changes in GDB. The two sets are
  the ones created at source lines 321 and 322; \<open>sz_cnt\<close> holds the local variables
  \<^verbatim>\<open>sz\<close> and \<^verbatim>\<open>cnt\<close> (\<open>None\<close> before the first assignment); \<open>reported\<close> lists the
  exceptions caught and printed by the two handlers of the function (source lines 410
  and 447); \<open>current_thread\<close> is GDB's selected thread. The other lines the function
  prints, the final sorting of the results among them, are not modelled.
\<close>

record scan =
  sc_unique_value_addrs :: "addr set"
  sc_blk_addrs :: "addr set"
  all_results :: "(string \<times> int \<times> int) list"
  total_bytes :: int
  total_count :: int
  sz_cnt :: "(int \<times> int) option"
  reported :: "exn list"
  current_thread :: "nat option"

text \<open>
  \<^verbatim>\<open>if sz and cnt: all_results.append((id, sz, cnt)); total_bytes += sz; total_count += cnt\<close>
  (source lines 400 to 404 and 451 to 455).
\<close>

definition add_result :: "string \<Rightarrow> int \<Rightarrow> int \<Rightarrow> scan \<Rightarrow> scan" where
  "add_result ident sz0 cnt0 sc =
     (if sz0 \<noteq> 0 \<and> cnt0 \<noteq> 0
      then sc\<lparr>all_results := all_results sc @ [(ident, sz0, cnt0)],
              total_bytes := total_bytes sc + sz0,
              total_count := total_count sc + cnt0\<rparr>
      else sc)"

text \<open>
  Source lines 394 to 398: a variable whose address was seen before is skipped
  (\<open>None\<close>), any other address is added to the set; a variable without an address
  (in a register) is always processed.
\<close>

definition claim_root :: "('v, 't) gdb \<Rightarrow> 'v \<Rightarrow> scan \<Rightarrow> scan option" where
  "claim_root g v sc =
     (case v_address g v of
        None \<Rightarrow> Some sc
      | Some addr \<Rightarrow>
          if addr \<in> sc_unique_value_addrs sc then None
          else Some (sc\<lparr>sc_unique_value_addrs := insert addr (sc_unique_value_addrs sc)\<rparr>))"

text \<open>
  Source lines 399 to 404: the traversal of one stack variable with the block set of
  the scan, and the entry in the results. An exception leaves the variables of the scan
  as they are when it is raised: \<^verbatim>\<open>heap_usage_value\<close> has then already changed the
  block set.
\<close>

definition scan_root ::
  "('v, 't) gdb \<Rightarrow> nat \<Rightarrow> nat \<Rightarrow> string \<Rightarrow> 'v \<Rightarrow> scan \<Rightarrow> ((exn \<times> scan) + scan) option" where
  "scan_root g num i name v sc =
     (case heap_usage_value g name (Some v) (sc_blk_addrs sc) of
        None \<Rightarrow> None
      | Some (Inl e, blks) \<Rightarrow> Some (Inl (e, sc\<lparr>sc_blk_addrs := blks\<rparr>))
      | Some (Inr (sz0, cnt0), blks) \<Rightarrow>
          Some (Inr (add_result
                       (''thread '' @ str_nat num @ '' frame ['' @ str_nat i @ ''] '' @ name)
                       sz0 cnt0
                       (sc\<lparr>sc_blk_addrs := blks, sz_cnt := Some (sz0, cnt0)\<rparr>))))"

text \<open>
  The body of the loop over the symbols of a block (source lines 365 to 408), on the
  set \<^verbatim>\<open>symbol_names\<close> of the frame and the variables of the scan.
\<close>

definition scan_symbol ::
  "('v, 't) gdb \<Rightarrow> ('v, 't) session \<Rightarrow> nat \<Rightarrow> nat \<Rightarrow> ('v, 't) symbol \<Rightarrow> string set \<times> scan
     \<Rightarrow> ((exn \<times> string set \<times> scan) + string set \<times> scan) option" where
  "scan_symbol g s num i symbol ns =
     (case ns of (symbol_names, sc) \<Rightarrow>
        if \<not> sym_is_variable symbol then Some (Inr ns)
        else if sym_name symbol \<in> symbol_names then Some (Inr ns)
        else
          let names1 = insert (sym_name symbol) symbol_names
          in (case get_typename s (sym_type symbol) (sym_name symbol) of
                Inl e \<Rightarrow> Some (Inl (e, names1, sc))
              | Inr type_name \<Rightarrow>
                  if \<not> truthy type_name then Some (Inr (names1, sc))
                  else (case symbol2value symbol of
                          None \<Rightarrow> Some (Inr (names1, sc))
                        | Some v \<Rightarrow>
                            (case claim_root g v sc of
                               None \<Rightarrow> Some (Inr (names1, sc))
                             | Some sc1 \<Rightarrow>
                                 (case scan_root g num i (sym_name symbol) v sc1 of
                                    None \<Rightarrow> None
                                  | Some (Inl (e, sc2)) \<Rightarrow> Some (Inl (e, names1, sc2))
                                  | Some (Inr sc2) \<Rightarrow> Some (Inr (names1, sc2)))))))"

fun scan_symbols ::
  "('v, 't) gdb \<Rightarrow> ('v, 't) session \<Rightarrow> nat \<Rightarrow> nat \<Rightarrow> ('v, 't) symbol list \<Rightarrow> string set \<times> scan
     \<Rightarrow> ((exn \<times> string set \<times> scan) + string set \<times> scan) option" where
  "scan_symbols g s num i [] ns = Some (Inr ns)"
| "scan_symbols g s num i (symbol # symbols) ns =
     (case scan_symbol g s num i symbol ns of
        None \<Rightarrow> None
      | Some (Inl e) \<Rightarrow> Some (Inl e)
      | Some (Inr ns') \<Rightarrow> scan_symbols g s num i symbols ns')"

text \<open>
  The loop over the lexical blocks of a frame (source lines 359 to 409): it stops at the
  first global or static block.
\<close>

fun scan_blocks ::
  "('v, 't) gdb \<Rightarrow> ('v, 't) session \<Rightarrow> nat \<Rightarrow> nat \<Rightarrow> ('v, 't) block list \<Rightarrow> string set \<times> scan
     \<Rightarrow> ((exn \<times> string set \<times> scan) + string set \<times> scan) option" where
  "scan_blocks g s num i [] ns = Some (Inr ns)"
| "scan_blocks g s num i (b # bs) ns =
     (if b_is_global b \<or> b_is_static b then Some (Inr ns)
      else (case scan_symbols g s num i (b_symbols b) ns of
              None \<Rightarrow> None
            | Some (Inl e) \<Rightarrow> Some (Inl e)
            | Some (Inr ns') \<Rightarrow> scan_blocks g s num i bs ns'))"

text \<open>
  One frame (source lines 344 to 412): the \<^verbatim>\<open>try\<close> block and its handler, which
  prints the exception and lets the scan go on with the next frame.
\<close>

definition scan_frame ::
  "('v, 't) gdb \<Rightarrow> ('v, 't) session \<Rightarrow> nat \<Rightarrow> nat \<Rightarrow> ('v, 't) frame \<Rightarrow> scan \<Rightarrow> scan option" where
  "scan_frame g s num i fr sc =
     (case fr_select fr of
        Some e \<Rightarrow> Some (sc\<lparr>reported := reported sc @ [e]\<rparr>)
      | None \<Rightarrow>
          (case scan_blocks g s num i (case fr_block fr of None \<Rightarrow> [] | Some bs \<Rightarrow> bs) ({}, sc) of
             None \<Rightarrow> None
           | Some (Inl (e, symbol_names, sc')) \<Rightarrow> Some (sc'\<lparr>reported := reported sc' @ [e]\<rparr>)
           | Some (Inr (symbol_names, sc')) \<Rightarrow> Some sc'))"

text \<open>
  The loop over the frames of a thread (source lines 341 to 414). Getting the next frame
  is outside the \<^verbatim>\<open>try\<close> block.
\<close>

fun scan_frames ::
  "('v, 't) gdb \<Rightarrow> ('v, 't) session \<Rightarrow> nat \<Rightarrow> nat \<Rightarrow> ('v, 't) frame list \<Rightarrow> exn option \<Rightarrow> scan
     \<Rightarrow> ((exn \<times> scan) + scan) option" where
  "scan_frames g s num i [] unwind sc =
     (case unwind of Some e \<Rightarrow> Some (Inl (e, sc)) | None \<Rightarrow> Some (Inr sc))"
| "scan_frames g s num i (fr # frs) unwind sc =
     (case scan_frame g s num i fr sc of
        None \<Rightarrow> None
      | Some sc' \<Rightarrow> scan_frames g s num (i + 1) frs unwind sc')"

text \<open>The loop over the threads (source lines 333 to 415).\<close>

fun scan_threads ::
  "('v, 't) gdb \<Rightarrow> ('v, 't) session \<Rightarrow> ('v, 't) thread list \<Rightarrow> scan
     \<Rightarrow> ((exn \<times> scan) + scan) option" where
  "scan_threads g s [] sc = Some (Inr sc)"
| "scan_threads g s (t # ts) sc =
     (case thr_switch t of
        Some e \<Rightarrow> Some (Inl (e, sc))
      | None \<Rightarrow>
          (case scan_frames g s (thr_num t) 0 (thr_frames t) (thr_unwind t)
                  (sc\<lparr>current_thread := Some (thr_num t)\<rparr>) of
             None \<Rightarrow> None
           | Some (Inl e) \<Rightarrow> Some (Inl e)
           | Some (Inr sc') \<Rightarrow> scan_threads g s ts sc'))"

text \<open>
  \<^verbatim>\<open>get_gvs\<close> (source lines 131 to 141, the definition in force): the symbols that have
  a value with an address.
\<close>

definition get_gvs ::
  "('v, 't) gdb \<Rightarrow> ('v, 't) session \<Rightarrow> (('v, 't) symbol \<times> 'v) list" where
  "get_gvs g s =
     List.map_filter
       (\<lambda>symbol. case symbol2value symbol of
                    None \<Rightarrow> None
                  | Some val \<Rightarrow> if v_address g val \<noteq> None then Some (symbol, val) else None)
       (global_and_static_symbols s)"

text \<open>
  The loop that removes from \<^verbatim>\<open>gvs\<close> the globals already counted (source lines 422 to
  429). It iterates over the list it pops from: \<open>pos\<close> is the position of Python's list
  iterator, which yields \<^verbatim>\<open>gvs[pos]\<close> as long as \<^verbatim>\<open>pos < len(gvs)\<close>, and \<open>index\<close> the
  loop's own counter.
\<close>

function remove_counted ::
  "('v, 't) gdb \<Rightarrow> nat \<Rightarrow> nat \<Rightarrow> (('v, 't) symbol \<times> 'v) list \<Rightarrow> addr set
     \<Rightarrow> exn + (('v, 't) symbol \<times> 'v) list \<times> addr set" where
  "remove_counted g pos index gvs unique =
     (if pos < length gvs
      then (case v_address g (snd (gvs ! pos)) of
              None \<Rightarrow> Inl TypeError
            | Some addr \<Rightarrow>
                if addr \<notin> unique
                then remove_counted g (pos + 1) (index + 1) gvs (insert addr unique)
                else if index < length gvs
                then remove_counted g (pos + 1) (index + 1)
                       (take index gvs @ drop (Suc index) gvs) unique
                else Inl IndexError)
      else Inr (gvs, unique))"
  by pat_completeness auto
termination
  by (relation "measure (\<lambda>(g, pos, index, gvs, unique). length gvs - pos)") auto

declare remove_counted.simps [simp del]

text \<open>
  The loop over the sorted globals (source lines 433 to 459). When
  \<^verbatim>\<open>heap_usage_value\<close> raises, the handler prints the exception and the body goes on
  with \<^verbatim>\<open>sz\<close> and \<^verbatim>\<open>cnt\<close> as they were; reading them before any assignment raises
  UnboundLocalError.
\<close>

fun scan_globals ::
  "('v, 't) gdb \<Rightarrow> ('v, 't) session \<Rightarrow> (('v, 't) symbol \<times> 'v) list \<Rightarrow> scan
     \<Rightarrow> ((exn \<times> scan) + scan) option" where
  "scan_globals g s [] sc = Some (Inr sc)"
| "scan_globals g s ((symbol, v) # rest) sc =
     (case get_typename s (sym_type symbol) (sym_name symbol) of
        Inl e \<Rightarrow> Some (Inl (e, sc))
      | Inr type_name \<Rightarrow>
          if \<not> truthy type_name then scan_globals g s rest sc
          else (case heap_usage_value g (sym_name symbol) (Some v) (sc_blk_addrs sc) of
                  None \<Rightarrow> None
                | Some (r, blks) \<Rightarrow>
                    let sc1 = (case r of
                                 Inl e \<Rightarrow> sc\<lparr>sc_blk_addrs := blks, reported := reported sc @ [e]\<rparr>
                               | Inr szcnt \<Rightarrow> sc\<lparr>sc_blk_addrs := blks, sz_cnt := Some szcnt\<rparr>)
                    in (case sz_cnt sc1 of
                          None \<Rightarrow> Some (Inl (UnboundLocalError, sc1))
                        | Some (sz0, cnt0) \<Rightarrow>
                            scan_globals g s rest
                              (add_result (sym_filename symbol @ '' '' @ sym_name symbol)
                                 sz0 cnt0 sc1))))"

text \<open>
  \<^verbatim>\<open>calc_all_vars\<close> (source lines 320 to 470). \<^verbatim>\<open>orig_thread\<close> may be \<^verbatim>\<open>None\<close>, and
  then \<^verbatim>\<open>orig_thread.switch()\<close> raises AttributeError. \<^verbatim>\<open>sorted\<close> is stable.
\<close>

definition init_scan :: "('v, 't) session \<Rightarrow> scan" where
  "init_scan s =
     \<lparr>sc_unique_value_addrs = {}, sc_blk_addrs = {}, all_results = [], total_bytes = 0,
      total_count = 0, sz_cnt = None, reported = [], current_thread = selected_thread s\<rparr>"

definition calc_all_vars ::
  "('v, 't) gdb \<Rightarrow> ('v, 't) session \<Rightarrow> ((exn \<times> scan) + scan) option" where
  "calc_all_vars g s =
     (let orig_thread = selected_thread s
      in case scan_threads g s (threads s) (init_scan s) of
           None \<Rightarrow> None
         | Some (Inl e) \<Rightarrow> Some (Inl e)
         | Some (Inr sc) \<Rightarrow>
             (case orig_thread of
                None \<Rightarrow> Some (Inl (AttributeError, sc))
              | Some t \<Rightarrow>
                  let sc1 = sc\<lparr>current_thread := Some t\<rparr>
                  in (case remove_counted g 0 0 (get_gvs g s) (sc_unique_value_addrs sc1) of
                        Inl e \<Rightarrow> Some (Inl (e, sc1))
                      | Inr (gvs, unique) \<Rightarrow>
                          scan_globals g s (sort_key (\<lambda>gv. sym_filename (fst gv)) gvs)
                            (sc1\<lparr>sc_unique_value_addrs := unique\<rparr>))))"

subsection \<open>The command\<close>

text \<open>
  \<^verbatim>\<open>invoke\<close> (source lines 472 to 484): what the command has printed (of the scan
  only the exceptions, as above), the variables of the scan if there was one, and
  GDB's selected thread when the command ends. An exception that escapes either
  function is caught and printed here.
\<close>

record invoked =
  printed :: "string list"
  scanned :: "scan option"
  thread_after :: "nat option"

definition invoke ::
  "('v, 't) gdb \<Rightarrow> ('v, 't) session \<Rightarrow> string \<Rightarrow> invoked option" where
  "invoke g s argument =
     (let out = [''Find variables with most memory consumption'']
      in if argument \<noteq> []
         then (case calc_input_vars g s argument out of
                 None \<Rightarrow> None
               | Some (Inl (e, out')) \<Rightarrow>
                   Some \<lparr>printed = out' @ [''Exception: '' @ str_exn e], scanned = None,
                         thread_after = selected_thread s\<rparr>
               | Some (Inr out') \<Rightarrow>
                   Some \<lparr>printed = out', scanned = None, thread_after = selected_thread s\<rparr>)
         else (case calc_all_vars g s of
                 None \<Rightarrow> None
               | Some (Inl (e, sc)) \<Rightarrow>
                   Some \<lparr>printed = out @ map (\<lambda>x. ''Exception: '' @ str_exn x) (reported sc @ [e]),
                         scanned = Some sc, thread_after = current_thread sc\<rparr>
               | Some (Inr sc) \<Rightarrow>
                   Some \<lparr>printed = out @ map (\<lambda>x. ''Exception: '' @ str_exn x) (reported sc),
                         scanned = Some sc, thread_after = current_thread sc\<rparr>))"

section \<open>Unresolved expressions\<close>

text \<open>
  A session over \<open>small_record\<close> in which \<^verbatim>\<open>r\<close> is the struct at 2000 and no other
  name resolves: as in GDB, \<^verbatim>\<open>gdb.parse_and_eval\<close> raises \<^verbatim>\<open>gdb.error\<close> for a name
  it cannot resolve.
\<close>

definition no_symbol_session :: "(nat \<times> addr, nat) session" where
  "no_symbol_session =
     \<lparr>selected_thread = Some 1, threads = [], global_and_static_symbols = [],
      parse_and_eval = (\<lambda>expr. if expr = ''r'' then Inr (4, 2000) else Inl GdbError),
      lookup_global_symbol = (\<lambda>expr. None),
      v_bool = (\<lambda>v. True),
      t_tag = (\<lambda>t. Some ''rec''),
      whatis = (\<lambda>expr. Inl GdbError)\<rparr>"

text \<open>
  Claim C8 says that an expression that does not resolve is reported and the remaining
  expressions are still evaluated. The loop handles a false value of
  \<^verbatim>\<open>gdb.parse_and_eval\<close>, but not the exception it raises on an unresolved name: the
  exception leaves \<^verbatim>\<open>calc_input_vars\<close> and is caught in \<^verbatim>\<open>invoke\<close>. With the
  argument \<^verbatim>\<open>nosuch r\<close> the line for \<^verbatim>\<open>r\<close>, which the argument \<^verbatim>\<open>r\<close> alone
  prints, never appears.
\<close>

theorem unresolved_expression_aborts_the_rest:
  "map_option printed (invoke small_record no_symbol_session ''r'') =
     Some [''Find variables with most memory consumption'',
           ''expr=r type=rec size=16 heap=24 count=1''] \<and>
   map_option printed (invoke small_record no_symbol_session ''nosuch r'') =
     Some [''Find variables with most memory consumption'', ''Exception: gdb.error'']"
  by code_simp

section \<open>Restoring the selected thread\<close>

text \<open>
  Two threads with one frame each and no variables; thread 1 is selected. Unwinding
  the stack of thread 2 fails after its first frame: \<^verbatim>\<open>frame.older()\<close> raises
  \<^verbatim>\<open>gdb.MemoryError\<close>.
\<close>

definition empty_frame :: "(nat \<times> addr, nat) frame" where
  "empty_frame = \<lparr>fr_select = None, fr_block = Some []\<rparr>"

definition broken_stack_session :: "(nat \<times> addr, nat) session" where
  "broken_stack_session =
     \<lparr>selected_thread = Some 1,
      threads =
        [\<lparr>thr_num = 1, thr_switch = None, thr_frames = [empty_frame], thr_unwind = None\<rparr>,
         \<lparr>thr_num = 2, thr_switch = None, thr_frames = [empty_frame],
          thr_unwind = Some MemoryError\<rparr>],
      global_and_static_symbols = [],
      parse_and_eval = (\<lambda>expr. Inl GdbError),
      lookup_global_symbol = (\<lambda>expr. None),
      v_bool = (\<lambda>v. True),
      t_tag = (\<lambda>t. Some ''T''),
      whatis = (\<lambda>expr. Inl GdbError)\<rparr>"

text \<open>
  Claim C9 says that the thread selected before the scan is selected again after it,
  also when an exception escapes the processing of a thread or a frame.
  \<^verbatim>\<open>orig_thread.switch()\<close> (source line 417) follows the loop over the threads
  without a \<^verbatim>\<open>finally\<close>: what \<^verbatim>\<open>thread.switch()\<close>, \<^verbatim>\<open>gdb.newest_frame()\<close> or
  \<^verbatim>\<open>frame.older()\<close> raise leaves the function before it. Here the scan ends with
  thread 2 selected.
\<close>

theorem thread_not_restored_after_escaping_exception:
  "selected_thread broken_stack_session = Some 1 \<and>
   map_option thread_after (invoke small_record broken_stack_session []) = Some (Some 2) \<and>
   map_option printed (invoke small_record broken_stack_session []) =
     Some [''Find variables with most memory consumption'', ''Exception: gdb.MemoryError'']"
  by code_simp


section \<open>Globals already counted as stack variables\<close>

text \<open>
  A global array \<^verbatim>\<open>char *g[2]\<close> at 200 whose elements point to live blocks of 24
  bytes at 6000 and of 32 bytes at 7000, and a static \<^verbatim>\<open>long counter\<close> at 100. The
  frame of the only thread has two variables: \<^verbatim>\<open>counter\<close>, and a reference
  \<^verbatim>\<open>char *&r = g[0]\<close>, whose address is that of \<^verbatim>\<open>g\<close>. The types are
  0 \<^verbatim>\<open>long\<close>, 1 \<^verbatim>\<open>char\<close>, 2 \<^verbatim>\<open>char*\<close>, 3 \<^verbatim>\<open>char*[2]\<close>.
\<close>

definition globals_image :: "(nat \<times> addr, nat) gdb" where
  "globals_image =
     image_gdb
       [\<lparr>c_code = TYPE_CODE_INT, c_sizeof = 8, c_target = 0, c_fields = []\<rparr>,
        \<lparr>c_code = TYPE_CODE_INT, c_sizeof = 1, c_target = 1, c_fields = []\<rparr>,
        \<lparr>c_code = TYPE_CODE_PTR, c_sizeof = 8, c_target = 1, c_fields = []\<rparr>,
        \<lparr>c_code = TYPE_CODE_ARRAY, c_sizeof = 16, c_target = 2, c_fields = []\<rparr>]
       [(200, 6000), (208, 7000)]
       [\<lparr>blk_address = 6000, blk_size = 24, blk_inuse = True\<rparr>,
        \<lparr>blk_address = 7000, blk_size = 32, blk_inuse = True\<rparr>]"

definition variable :: "string \<Rightarrow> nat \<Rightarrow> addr \<Rightarrow> (nat \<times> addr, nat) symbol" where
  "variable name t a =
     \<lparr>sym_name = name, sym_filename = ''a.c'', sym_is_valid = True, sym_is_variable = True,
      sym_type = t, sym_value = Inr (t, a)\<rparr>"

definition globals_session ::
  "(nat \<times> addr, nat) symbol list \<Rightarrow> (nat \<times> addr, nat) session" where
  "globals_session gs =
     \<lparr>selected_thread = Some 1,
      threads =
        [\<lparr>thr_num = 1, thr_switch = None,
          thr_frames =
            [\<lparr>fr_select = None,
              fr_block = Some [\<lparr>b_is_global = False, b_is_static = False,
                                b_symbols = [variable ''counter'' 0 100, variable ''r'' 2 200]\<rparr>]\<rparr>],
          thr_unwind = None\<rparr>],
      global_and_static_symbols = gs,
      parse_and_eval = (\<lambda>expr. Inl GdbError),
      lookup_global_symbol = (\<lambda>expr. None),
      v_bool = (\<lambda>v. True),
      t_tag = (\<lambda>t. Some ''T''),
      whatis = (\<lambda>expr. Inl GdbError)\<rparr>"

text \<open>The results and the totals of a scan.\<close>

definition scan_summary :: "invoked option \<Rightarrow> ((string \<times> int \<times> int) list \<times> int \<times> int) option" where
  "scan_summary r =
     (case r of
        None \<Rightarrow> None
      | Some i \<Rightarrow> map_option (\<lambda>sc. (all_results sc, total_bytes sc, total_count sc)) (scanned i))"

text \<open>
  Claim C7 says that a global whose address was counted as the address of a stack
  variable is left out of the pass over the globals and adds nothing. The loop that
  removes such globals pops from the list it iterates over, so the global after a
  removed one is never looked at. Both \<^verbatim>\<open>counter\<close> (100) and \<^verbatim>\<open>g\<close> (200) were
  counted as stack addresses; \<^verbatim>\<open>counter\<close> is removed, \<^verbatim>\<open>g\<close> stays and adds 32
  bytes in one block. With \<^verbatim>\<open>g\<close> as the only global it is removed and adds
  nothing.
\<close>

theorem counted_global_not_excluded:
  "map_option (\<lambda>r. map (\<lambda>gv. sym_name (fst gv)) (fst r))
     (case remove_counted globals_image 0 0
             [(variable ''counter'' 0 100, (0, 100)), (variable ''g'' 3 200, (3, 200))] {100, 200} of
        Inl e \<Rightarrow> None | Inr r \<Rightarrow> Some r) = Some [''g''] \<and>
   scan_summary (invoke globals_image
      (globals_session [variable ''counter'' 0 100, variable ''g'' 3 200]) []) =
     Some ([(''thread 1 frame [0] r'', 24, 1), (''a.c g'', 32, 1)], 56, 2) \<and>
   scan_summary (invoke globals_image (globals_session [variable ''g'' 3 200]) []) =
     Some ([(''thread 1 frame [0] r'', 24, 1)], 24, 1)"
  by code_simp

section \<open>The sets of the whole scan\<close>

text \<open>
  Every block of the scan's block set is in the totals once: the total count is the
  number of blocks in the set, the total of bytes the sum of their sizes.
\<close>

definition scan_billed :: "(addr \<Rightarrow> int) \<Rightarrow> scan \<Rightarrow> bool" where
  "scan_billed bsz sc \<longleftrightarrow>
     finite (sc_blk_addrs sc) \<and> total_count sc = int (card (sc_blk_addrs sc)) \<and>
     total_bytes sc = (\<Sum>b\<in>sc_blk_addrs sc. bsz b)"

text \<open>
  What every part of the scan keeps, as long as no handler has reported an exception:
  the list of reported exceptions only grows, and the totals stay right.
\<close>

definition keeps_billing :: "(addr \<Rightarrow> int) \<Rightarrow> scan \<Rightarrow> scan \<Rightarrow> bool" where
  "keeps_billing bsz sc sc' \<longleftrightarrow>
     (reported sc' = [] \<longrightarrow> reported sc = [] \<and> (scan_billed bsz sc \<longrightarrow> scan_billed bsz sc'))"

lemma keeps_billing_refl [simp]: "keeps_billing bsz sc sc"
  by (simp add: keeps_billing_def)




lemma scan_billed_unique [simp]:
  "scan_billed bsz (sc\<lparr>sc_unique_value_addrs := u\<rparr>) = scan_billed bsz sc"
  "scan_billed bsz (sc\<lparr>current_thread := t\<rparr>) = scan_billed bsz sc"
  by (simp_all add: scan_billed_def)





















end
